theory Spec2Isabelle
  imports Complex_Main "HOL-Library.Word" "HOL-Library.Signed_Division" "HOL-Library.Sublist"
begin

section \<open>Shared types (package types)\<close>

text \<open>
  Go strings are byte sequences and are modelled as \<open>string\<close>. The string-based
  types \<open>Environment\<close>, \<open>SSLProvider\<close>, \<open>InstallationPhase\<close> and
  \<open>ErrorCode\<close> stay strings, with the declared constants as definitions.
  \<open>time.Time\<close> values are abstract instants (\<open>nat\<close>); \<open>time.Now()\<close> is read
  from a clock that every function calling it takes as an argument.

  Go field names are scoped by their struct. Here each struct's fields carry a short
  prefix: \<open>ic_\<close> InstallationConfig, \<open>ssl_\<close> SSLConfig, \<open>pu_\<close> ProgressUpdate,
  \<open>ie_\<close> InstallError, \<open>ec_\<close> ErrorContext, \<open>hm_\<close> HostMetadata.
\<close>

type_synonym Environment = string
type_synonym SSLProvider = string
type_synonym InstallationPhase = string
type_synonym ErrorCode = string
type_synonym Time = nat

definition EnvironmentDevelopment :: Environment where
  "EnvironmentDevelopment = ''dev''"
definition EnvironmentStaging :: Environment where
  "EnvironmentStaging = ''staging''"
definition EnvironmentProduction :: Environment where
  "EnvironmentProduction = ''prod''"

definition SSLProviderLetsEncrypt :: SSLProvider where
  "SSLProviderLetsEncrypt = ''letsencrypt''"
definition SSLProviderSelfSigned :: SSLProvider where
  "SSLProviderSelfSigned = ''self-signed''"
definition SSLProviderCustom :: SSLProvider where
  "SSLProviderCustom = ''custom''"

definition ErrCodeSystemRequirements :: ErrorCode where
  "ErrCodeSystemRequirements = ''SYSTEM_REQUIREMENTS''"
definition ErrCodePortConflict :: ErrorCode where
  "ErrCodePortConflict = ''PORT_CONFLICT''"
definition ErrCodeDockerInstall :: ErrorCode where
  "ErrCodeDockerInstall = ''DOCKER_INSTALL_FAILED''"
definition ErrCodeSupabaseSetup :: ErrorCode where
  "ErrCodeSupabaseSetup = ''SUPABASE_SETUP_FAILED''"
definition ErrCodeNetworkTimeout :: ErrorCode where
  "ErrCodeNetworkTimeout = ''NETWORK_TIMEOUT''"
definition ErrCodePermissionDenied :: ErrorCode where
  "ErrCodePermissionDenied = ''PERMISSION_DENIED''"
definition ErrCodeConfigInvalid :: ErrorCode where
  "ErrCodeConfigInvalid = ''CONFIG_INVALID''"
definition ErrCodeUnsupportedOS :: ErrorCode where
  "ErrCodeUnsupportedOS = ''UNSUPPORTED_OS''"
definition ErrCodeInvalidFormat :: ErrorCode where
  "ErrCodeInvalidFormat = ''INVALID_FORMAT''"

record SSLConfig =
  ssl_Provider :: SSLProvider
  ssl_Email :: string
  ssl_CustomCert :: string
  ssl_CustomKey :: string
  ssl_AutoRenew :: bool

record InstallationConfig =
  ic_Environment :: Environment
  ic_Domain :: string
  ic_Email :: string
  ic_SSL :: SSLConfig
  ic_CreatedAt :: Time
  ic_Version :: string

text \<open>
  \<open>ProgressUpdate.Progress\<close> is a float64 that only ever holds one of the decimal
  literals of the phase table and is never computed with; it is kept as the rational
  the literal denotes (rounding a literal to float64 is monotone and keeps these
  literals apart). The \<open>Metadata\<close> maps of \<open>ProgressUpdate\<close> and \<open>ErrorContext\<close>
  are never set by the code and are left out.
\<close>

record ProgressUpdate =
  pu_Phase :: string
  pu_Step :: string
  pu_Progress :: rat
  pu_Message :: string
  pu_Timestamp :: Time

record ErrorContext =
  ec_Component :: string
  ec_Operation :: string
  ec_Phase :: InstallationPhase
  ec_Environment :: Environment

text \<open>
  A Go \<open>error\<close> value is one of: an \<open>*exec.ExitError\<close> (its exit code and its
  text), an error made of a plain text (\<open>errors.New\<close>, operating-system and I/O
  errors), an error built by \<open>fmt.Errorf("<prefix>%w", err)\<close>, or an
  \<open>*types.InstallError\<close>, whose \<open>Cause\<close> is again an error.
\<close>

datatype go_error =
    ExitError int string
  | ErrorString string
  | Errorf string go_error
  | InstallErr InstallError
and InstallError =
  MkInstallError (ie_Code: ErrorCode) (ie_Message: string) (ie_Details: string)
    (ie_Suggestions: "string list") (ie_Cause: "go_error option")
    (ie_Context: ErrorContext) (ie_Timestamp: Time)

record HostMetadata =
  hm_OS :: string
  hm_Version :: string
  hm_Architecture :: string
  hm_DockerVersion :: string
  hm_AvailableRAM :: "64 word"
  hm_AvailableDisk :: "64 word"
  hm_Timestamp :: Time

text \<open>The \<open>Error()\<close> method of each kind of error.\<close>

fun Error :: "go_error \<Rightarrow> string"
  and InstallError_Error :: "InstallError \<Rightarrow> string" where
  "Error (ExitError c s) = s"
| "Error (ErrorString s) = s"
| "Error (Errorf p e) = p @ Error e"
| "Error (InstallErr e) = InstallError_Error e"
| "InstallError_Error (MkInstallError c m d sg ca cx t) =
     (if d \<noteq> [] then m @ '': '' @ d else m)"

section \<open>Formatting integers (the verb \<open>%d\<close>)\<close>

definition digit_char :: "nat \<Rightarrow> char" where
  "digit_char d = ''0123456789'' ! d"

function nat_dec :: "nat \<Rightarrow> string" where
  "nat_dec n = (if n < 10 then [digit_char n] else nat_dec (n div 10) @ [digit_char (n mod 10)])"
  by pat_completeness auto
termination
  by (relation "measure id") auto

declare nat_dec.simps [simp del]

definition Sprintf_d :: "int \<Rightarrow> string" where
  "Sprintf_d i = (if i < 0 then CHR ''-'' # nat_dec (nat (- i)) else nat_dec (nat i))"

text \<open>Reading a decimal numeral back, to state that \<open>Sprintf_d\<close> loses nothing.\<close>

definition digit_val :: "char \<Rightarrow> nat" where
  "digit_val c = of_char c - 48"

definition dec_nat :: "string \<Rightarrow> nat" where
  "dec_nat s = foldl (\<lambda>a c. 10 * a + digit_val c) 0 s"

definition Atoi :: "string \<Rightarrow> int" where
  "Atoi s = (case s of [] \<Rightarrow> 0
             | c # cs \<Rightarrow> if c = CHR ''-'' then - int (dec_nat cs) else int (dec_nat s))"

section \<open>Error constructors (package errors)\<close>

definition NewInstallationError ::
  "Time \<Rightarrow> ErrorCode \<Rightarrow> string \<Rightarrow> string \<Rightarrow> string \<Rightarrow> InstallError" where
  "NewInstallationError now code message component operation =
     MkInstallError code message [] [] None
       \<lparr>ec_Component = component, ec_Operation = operation, ec_Phase = [], ec_Environment = []\<rparr>
       now"

definition WrapError ::
  "Time \<Rightarrow> go_error option \<Rightarrow> ErrorCode \<Rightarrow> string \<Rightarrow> string \<Rightarrow> string \<Rightarrow> InstallError" where
  "WrapError now err code message component operation =
     (case NewInstallationError now code message component operation of
        MkInstallError c m d sg ca cx t \<Rightarrow>
          (case err of
             None \<Rightarrow> MkInstallError c m d sg None cx t
           | Some e \<Rightarrow> MkInstallError c m (Error e) sg (Some e) cx t))"

definition NewConfigError :: "Time \<Rightarrow> string \<Rightarrow> string \<Rightarrow> InstallError" where
  "NewConfigError now message details =
     MkInstallError ErrCodeConfigInvalid message details
       [''Check configuration file syntax'',
        ''Verify all required fields are present'',
        ''Validate field formats (email, domain, etc.)'']
       None
       \<lparr>ec_Component = ''config'', ec_Operation = ''validation'', ec_Phase = [], ec_Environment = []\<rparr>
       now"

text \<open>A nil slice of suggestions is \<open>None\<close>.\<close>

definition NewSystemError :: "Time \<Rightarrow> string \<Rightarrow> string \<Rightarrow> string list option \<Rightarrow> InstallError" where
  "NewSystemError now message details suggestions =
     MkInstallError ErrCodeSystemRequirements message details
       (case suggestions of
          None \<Rightarrow> [''Check system requirements documentation'',
                    ''Ensure sufficient resources are available'',
                    ''Verify operating system compatibility'']
        | Some sg \<Rightarrow> sg)
       None
       \<lparr>ec_Component = ''system'', ec_Operation = ''validation'', ec_Phase = [], ec_Environment = []\<rparr>
       now"

section \<open>Delegation runner: the exit-code mapper\<close>

fun processContainerError :: "Time \<Rightarrow> go_error \<Rightarrow> InstallError" where
  "processContainerError now (ExitError exitCode s) =
     (if exitCode = 1 then
        NewInstallationError now ErrCodeConfigInvalid
          ''container installation failed with configuration error'' ''container'' ''execution''
      else if exitCode = 2 then
        NewInstallationError now ErrCodeSystemRequirements
          ''container installation failed with system requirements error'' ''container'' ''execution''
      else if exitCode = 3 then
        NewInstallationError now ErrCodeDockerInstall
          ''container installation failed with Docker setup error'' ''container'' ''execution''
      else if exitCode = 4 then
        NewInstallationError now ErrCodeSupabaseSetup
          ''container installation failed with Supabase setup error'' ''container'' ''execution''
      else
        NewInstallationError now ErrCodeSystemRequirements
          (''container installation failed with exit code '' @ Sprintf_d exitCode)
          ''container'' ''execution'')"
| "processContainerError now err =
     WrapError now (Some err) ErrCodeSystemRequirements
       ''container installation failed'' ''container'' ''execution''"

section \<open>Delegation runner: classifying the output streams\<close>

text \<open>
  The logger is a list of entries, in the order they were written. A channel is the
  list of values sent on it, in order, and for the progress channel whether it has been
  closed; buffers are taken as never full. Sending on a closed channel panics, which
  ends the program. \<open>json.Unmarshal\<close> is a library function: each stream function
  takes the decoder for its message type as an argument, \<open>None\<close> standing for a
  non-nil error.
\<close>

datatype level = DebugLevel | InfoLevel | WarnLevel | ErrorLevel | SuccessLevel

type_synonym logger = "(level \<times> string) list"

datatype 'a outcome = Ok 'a | Panic string

text \<open>
  What a \<open>bufio.Scanner\<close> yields: the lines it returns, and the error
  \<open>scanner.Err()\<close> reports when it stops. With its default buffer it returns the
  lines of the stream in order up to the first line of \<open>MaxScanTokenSize\<close> (64 KiB)
  or more bytes; there it stops with \<open>ErrTooLong\<close>, and nothing after that point is
  read. When no line is that long it stops at the end of the stream, with the read
  error of the stream, if any.
\<close>

record reader =
  scan_lines :: "string list"
  scan_Err :: "go_error option"

definition MaxScanTokenSize :: nat where
  "MaxScanTokenSize = 64 * 1024"

definition ErrTooLong :: go_error where
  "ErrTooLong = ErrorString ''bufio.Scanner: token too long''"

definition bufio_Scanner :: "string list \<Rightarrow> go_error option \<Rightarrow> reader" where
  "bufio_Scanner stream readErr =
     \<lparr>scan_lines = takeWhile (\<lambda>line. length line < MaxScanTokenSize) stream,
      scan_Err = (if list_all (\<lambda>line. length line < MaxScanTokenSize) stream then readErr
                  else Some ErrTooLong)\<rparr>"

record channels =
  progressChan :: "ProgressUpdate list"
  progressClosed :: bool
  errorChan :: "go_error list"
  logged :: logger

text \<open>The body of the loop of \<open>streamProgressOutput\<close>, for one line.\<close>

definition progressLine ::
  "(string \<Rightarrow> ProgressUpdate option) \<Rightarrow> string \<Rightarrow> channels \<Rightarrow> channels outcome" where
  "progressLine unmarshal line s =
     (case unmarshal line of
        Some update \<Rightarrow>
          if progressClosed s then Panic ''send on closed channel''
          else Ok (s\<lparr>progressChan := progressChan s @ [update]\<rparr>)
      | None \<Rightarrow> Ok (s\<lparr>logged := logged s @ [(InfoLevel, line)]\<rparr>))"

fun scanProgress ::
  "(string \<Rightarrow> ProgressUpdate option) \<Rightarrow> string list \<Rightarrow> channels \<Rightarrow> channels outcome" where
  "scanProgress unmarshal [] s = Ok s"
| "scanProgress unmarshal (line # rest) s =
     (case progressLine unmarshal line s of
        Panic msg \<Rightarrow> Panic msg
      | Ok s' \<Rightarrow> scanProgress unmarshal rest s')"

text \<open>The end of both stream functions: a non-nil \<open>scanner.Err()\<close> is sent on the error channel.\<close>

definition sendScanErr :: "go_error option \<Rightarrow> channels \<Rightarrow> channels" where
  "sendScanErr scanErr s =
     (case scanErr of
        Some err \<Rightarrow> s\<lparr>errorChan := errorChan s @ [err]\<rparr>
      | None \<Rightarrow> s)"

definition streamProgressOutput ::
  "(string \<Rightarrow> ProgressUpdate option) \<Rightarrow> reader \<Rightarrow> channels \<Rightarrow> channels outcome" where
  "streamProgressOutput unmarshal rd s =
     (case scanProgress unmarshal (scan_lines rd) s of
        Panic msg \<Rightarrow> Panic msg
      | Ok s' \<Rightarrow> Ok (sendScanErr (scan_Err rd) s'))"

text \<open>The body of the loop of \<open>streamErrorOutput\<close>, for one line.\<close>

definition errorLine :: "(string \<Rightarrow> InstallError option) \<Rightarrow> string \<Rightarrow> channels \<Rightarrow> channels" where
  "errorLine unmarshal line s =
     (case unmarshal line of
        Some installErr \<Rightarrow> s\<lparr>errorChan := errorChan s @ [InstallErr installErr]\<rparr>
      | None \<Rightarrow> s\<lparr>logged := logged s @ [(ErrorLevel, line)]\<rparr>)"

fun scanError :: "(string \<Rightarrow> InstallError option) \<Rightarrow> string list \<Rightarrow> channels \<Rightarrow> channels" where
  "scanError unmarshal [] s = s"
| "scanError unmarshal (line # rest) s = scanError unmarshal rest (errorLine unmarshal line s)"

definition streamErrorOutput ::
  "(string \<Rightarrow> InstallError option) \<Rightarrow> reader \<Rightarrow> channels \<Rightarrow> channels" where
  "streamErrorOutput unmarshal rd s =
     sendScanErr (scan_Err rd) (scanError unmarshal (scan_lines rd) s)"

section \<open>Delegation runner: launching and supervising the container\<close>

definition DefaultInstallPath :: string where
  "DefaultInstallPath = ''/opt/subosity''"

definition ContainerImageDev :: string where
  "ContainerImageDev = ''subosity/installer:dev''"

text \<open>
  What the operating system answers is an input of the model. A command started with
  \<open>exec.CommandContext\<close> is described by the errors of its four calls
  (\<open>StdoutPipe\<close>, \<open>StderrPipe\<close>, \<open>Start\<close>, \<open>Wait\<close>).

  After \<open>cmd.Start()\<close>, \<open>runContainer\<close> runs five goroutines at once: the two
  stream readers, the progress consumer, the one that sends the result of
  \<open>cmd.Wait()\<close> on \<open>waitChan\<close>, and itself, waiting in its \<open>select\<close>. The order
  in which they take their steps is an input, the schedule, a list of events:
  \<^item> a stream reader's scanner returns a line and the loop body runs for it, or the
    scanner stops and \<open>scanner.Err()\<close> is handled (\<open>cmd.Wait()\<close> closes the pipes when
    the process has exited, so a reader still reading then stops with a read error);
  \<^item> \<open>cmd.Wait()\<close> returns and its result is sent on \<open>waitChan\<close>;
  \<^item> the context is done, with the value of \<open>ctx.Err()\<close>;
  \<^item> the \<open>select\<close> takes one of its cases. A case can be taken when its channel is
    ready; the event names the case (the runtime takes a random one when several are
    ready), and has no effect when that channel is not ready or \<open>runContainer\<close> has
    returned.
  An event of a goroutine that has finished has no effect, and after a panic nothing
  happens any more. The progress consumer only renders what it receives and is left
  out. Senders put only non-nil errors on the error channel, so the branch of the
  \<open>select\<close> for a nil error is never taken.
\<close>

record command =
  StdoutPipe_err :: "go_error option"
  StderrPipe_err :: "go_error option"
  Start_err :: "go_error option"
  Wait_err :: "go_error option"

datatype select_case = FromWaitChan | FromErrorChan | CtxDone

datatype event =
    StdoutLine string
  | StdoutStops "go_error option"
  | StderrLine string
  | StderrStops "go_error option"
  | WaitReturns
  | ContextDone go_error
  | Select select_case

text \<open>The steps of a stream reader, from what its scanner yields.\<close>

definition stdout_events :: "reader \<Rightarrow> event list" where
  "stdout_events rd = map StdoutLine (scan_lines rd) @ [StdoutStops (scan_Err rd)]"

definition stderr_events :: "reader \<Rightarrow> event list" where
  "stderr_events rd = map StderrLine (scan_lines rd) @ [StderrStops (scan_Err rd)]"

record host =
  time_Now :: Time
  os_MkdirAll :: "string \<Rightarrow> go_error option"
  json_Marshal :: "InstallationConfig \<Rightarrow> go_error + string"
  json_Unmarshal_ProgressUpdate :: "string \<Rightarrow> ProgressUpdate option"
  json_Unmarshal_InstallError :: "string \<Rightarrow> InstallError option"
  exec_Command :: "string \<Rightarrow> string list \<Rightarrow> command"
  schedule :: "event list"

text \<open>
  The state of a run of the container: the channels and the log; what is waiting on
  \<open>waitChan\<close>; the error of the context once it is done; which goroutines have
  finished; whether the process was killed; the value \<open>runContainer\<close> has returned,
  if it has; and the message of the panic, if there was one.
\<close>

record run_state =
  chans :: channels
  waitChan :: "go_error option option"
  ctx_Err :: "go_error option"
  stdoutDone :: bool
  stderrDone :: bool
  waitDone :: bool
  killed :: bool
  returned :: "go_error option option"
  panicked :: "string option"

text \<open>
  What a run comes to: the value \<open>runContainer\<close> returns, a panic of one of its
  goroutines (which ends the program whatever has been returned), or a \<open>select\<close>
  still waiting when the schedule ends.
\<close>

datatype run_result = Returned "go_error option" | Panicked string | Blocked

fun mkdirSubdirs :: "host \<Rightarrow> string \<Rightarrow> string list \<Rightarrow> go_error option" where
  "mkdirSubdirs h dataDir [] = None"
| "mkdirSubdirs h dataDir (subdir # rest) =
     (let path = dataDir @ ''/'' @ subdir in
      case os_MkdirAll h path of
        Some err \<Rightarrow> Some (Errorf (''failed to create directory '' @ path @ '': '') err)
      | None \<Rightarrow> mkdirSubdirs h dataDir rest)"

definition ensureDataDirectory :: "host \<Rightarrow> logger \<Rightarrow> go_error option \<times> logger" where
  "ensureDataDirectory h lg =
     (let dataDir = DefaultInstallPath in
      case os_MkdirAll h dataDir of
        Some err \<Rightarrow> (Some (Errorf (''failed to create directory '' @ dataDir @ '': '') err), lg)
      | None \<Rightarrow>
          (case mkdirSubdirs h dataDir [''data'', ''logs'', ''configs'', ''backups'', ''docker''] of
             Some err \<Rightarrow> (Some err, lg)
           | None \<Rightarrow>
               (None, lg @ [(DebugLevel, ''Created data directory structure at '' @ dataDir)])))"

definition pullImage :: "host \<Rightarrow> logger \<Rightarrow> go_error option \<times> logger" where
  "pullImage h lg =
     (let lg1 = lg @ [(InfoLevel, ''Pulling installer container image...'')];
          image = ContainerImageDev;
          cmd = exec_Command h ''docker'' [''pull'', image]
      in case StdoutPipe_err cmd of
           Some err \<Rightarrow> (Some (Errorf ''failed to create stdout pipe: '' err), lg1)
         | None \<Rightarrow>
        (case StderrPipe_err cmd of
           Some err \<Rightarrow> (Some (Errorf ''failed to create stderr pipe: '' err), lg1)
         | None \<Rightarrow>
        (case Start_err cmd of
           Some err \<Rightarrow> (Some (Errorf ''failed to start docker pull: '' err), lg1)
         | None \<Rightarrow>
        (case Wait_err cmd of
           Some err \<Rightarrow> (Some (Errorf ''docker pull failed: '' err), lg1)
         | None \<Rightarrow>
             (None, lg1 @ [(InfoLevel, ''Successfully pulled installer container image'')])))))"

definition docker_run_args :: "string \<Rightarrow> InstallationConfig \<Rightarrow> string list" where
  "docker_run_args configJSON config =
     [''run'', ''--rm'',
      ''-v'', DefaultInstallPath @ '':/app/data'',
      ''-v'', ''/var/run/docker.sock:/var/run/docker.sock'',
      ''-v'', ''/etc:/app/host-etc:ro'',
      ''-v'', ''/usr/bin/systemctl:/usr/bin/systemctl:ro'',
      ''-e'', ''SUBOSITY_CONFIG='' @ configJSON,
      ''-e'', ''SUBOSITY_ENVIRONMENT='' @ ic_Environment config,
      ''-e'', ''SUBOSITY_DOMAIN='' @ ic_Domain config,
      ''-e'', ''SUBOSITY_EMAIL='' @ ic_Email config,
      ''--network'', ''host'',
      ContainerImageDev,
      ''install'']"

definition started :: "logger \<Rightarrow> run_state" where
  "started lg =
     \<lparr>chans = \<lparr>progressChan = [], progressClosed = False, errorChan = [], logged = lg\<rparr>,
      waitChan = None, ctx_Err = None, stdoutDone = False, stderrDone = False,
      waitDone = False, killed = False, returned = None, panicked = None\<rparr>"

text \<open>The three cases of the \<open>select\<close>, in the order of the source.\<close>

fun select :: "host \<Rightarrow> select_case \<Rightarrow> run_state \<Rightarrow> run_state" where
  "select h FromWaitChan st =
     (case waitChan st of
        None \<Rightarrow> st
      | Some received \<Rightarrow>
          (let st1 = st\<lparr>waitChan := None, chans := (chans st)\<lparr>progressClosed := True\<rparr>\<rparr> in
           case received of
             Some err \<Rightarrow>
               st1\<lparr>returned := Some (Some (InstallErr (processContainerError (time_Now h) err)))\<rparr>
           | None \<Rightarrow> st1\<lparr>returned := Some None\<rparr>))"
| "select h FromErrorChan st =
     (case errorChan (chans st) of
        [] \<Rightarrow> st
      | err # rest \<Rightarrow>
          st\<lparr>chans := (chans st)\<lparr>errorChan := rest\<rparr>, killed := True,
             returned := Some (Some (Errorf ''container stream error: '' err))\<rparr>)"
| "select h CtxDone st =
     (case ctx_Err st of
        None \<Rightarrow> st
      | Some ctxErr \<Rightarrow> st\<lparr>killed := True, returned := Some (Some ctxErr)\<rparr>)"

fun step :: "host \<Rightarrow> command \<Rightarrow> event \<Rightarrow> run_state \<Rightarrow> run_state" where
  "step h cmd (StdoutLine line) st =
     (if stdoutDone st then st
      else case progressLine (json_Unmarshal_ProgressUpdate h) line (chans st) of
             Panic msg \<Rightarrow> st\<lparr>panicked := Some msg\<rparr>
           | Ok c \<Rightarrow> st\<lparr>chans := c\<rparr>)"
| "step h cmd (StdoutStops scanErr) st =
     (if stdoutDone st then st
      else st\<lparr>chans := sendScanErr scanErr (chans st), stdoutDone := True\<rparr>)"
| "step h cmd (StderrLine line) st =
     (if stderrDone st then st
      else st\<lparr>chans := errorLine (json_Unmarshal_InstallError h) line (chans st)\<rparr>)"
| "step h cmd (StderrStops scanErr) st =
     (if stderrDone st then st
      else st\<lparr>chans := sendScanErr scanErr (chans st), stderrDone := True\<rparr>)"
| "step h cmd WaitReturns st =
     (if waitDone st then st
      else st\<lparr>waitChan := Some (Wait_err cmd), waitDone := True\<rparr>)"
| "step h cmd (ContextDone ctxErr) st =
     (if ctx_Err st \<noteq> None then st else st\<lparr>ctx_Err := Some ctxErr\<rparr>)"
| "step h cmd (Select c) st =
     (if returned st \<noteq> None then st else select h c st)"

fun run_events :: "host \<Rightarrow> command \<Rightarrow> event list \<Rightarrow> run_state \<Rightarrow> run_state" where
  "run_events h cmd [] st = st"
| "run_events h cmd (ev # evs) st =
     (if panicked st \<noteq> None then st else run_events h cmd evs (step h cmd ev st))"

definition result_of :: "run_state \<Rightarrow> run_result" where
  "result_of st =
     (case panicked st of
        Some msg \<Rightarrow> Panicked msg
      | None \<Rightarrow> (case returned st of Some r \<Rightarrow> Returned r | None \<Rightarrow> Blocked))"

definition runContainer :: "host \<Rightarrow> InstallationConfig \<Rightarrow> logger \<Rightarrow> run_result \<times> logger" where
  "runContainer h config lg =
     (let lg1 = lg @ [(InfoLevel, ''Running installer container...'')] in
      case json_Marshal h config of
        Inl err \<Rightarrow> (Returned (Some (Errorf ''failed to serialize configuration: '' err)), lg1)
      | Inr configJSON \<Rightarrow>
     (let cmd = exec_Command h ''docker'' (docker_run_args configJSON config) in
      case StdoutPipe_err cmd of
        Some err \<Rightarrow> (Returned (Some (Errorf ''failed to create stdout pipe: '' err)), lg1)
      | None \<Rightarrow>
     (case StderrPipe_err cmd of
        Some err \<Rightarrow> (Returned (Some (Errorf ''failed to create stderr pipe: '' err)), lg1)
      | None \<Rightarrow>
     (case Start_err cmd of
        Some err \<Rightarrow> (Returned (Some (Errorf ''failed to start installer container: '' err)), lg1)
      | None \<Rightarrow>
          (let st = run_events h cmd (schedule h) (started lg1) in
           (result_of st, logged (chans st)))))))"

text \<open>
  \<open>RunInstaller\<close> passes on what \<open>runContainer\<close> returns and logs the success
  after a nil error; a panic, or a \<open>select\<close> that never returns, leaves it no turn.
\<close>

definition RunInstaller :: "host \<Rightarrow> InstallationConfig \<Rightarrow> logger \<Rightarrow> run_result \<times> logger" where
  "RunInstaller h config lg =
     (let lg1 = lg @ [(InfoLevel, ''Starting container-based installation...'')] in
      case ensureDataDirectory h lg1 of
        (Some err, lg2) \<Rightarrow>
          (Returned (Some (InstallErr (WrapError (time_Now h) (Some err) ErrCodePermissionDenied
             ''failed to create data directory'' ''container'' ''preparation''))), lg2)
      | (None, lg2) \<Rightarrow>
     (case pullImage h lg2 of
        (Some err, lg3) \<Rightarrow>
          (Returned (Some (InstallErr (WrapError (time_Now h) (Some err) ErrCodeNetworkTimeout
             ''failed to pull installer image'' ''container'' ''pull''))), lg3)
      | (None, lg3) \<Rightarrow>
     (case runContainer h config lg3 of
        (Returned (Some err), lg4) \<Rightarrow> (Returned (Some err), lg4)
      | (Returned None, lg4) \<Rightarrow>
          (Returned None,
           lg4 @ [(SuccessLevel, ''Container-based installation completed successfully'')])
      | (Panicked msg, lg4) \<Rightarrow> (Panicked msg, lg4)
      | (Blocked, lg4) \<Rightarrow> (Blocked, lg4))))"

section \<open>Phase pipeline executor (the installer inside the container)\<close>

text \<open>
  The phase actions run external tools. Each is a function from the state of the
  container's world \<open>'w\<close> to the error it returns and the world it leaves behind;
  none of them assigns to the configuration. \<open>os.Getenv\<close>, \<open>json.Unmarshal\<close> and
  the clock are inputs as well. Standard output is the list of the \<open>ProgressUpdate\<close>
  values the loop marshals and prints, in order (the error of \<open>json.Marshal\<close> is
  discarded by the code); what the actions print themselves belongs to the world.
\<close>

record 'w phase =
  name :: string
  progress :: rat
  action :: "InstallationConfig \<Rightarrow> 'w \<Rightarrow> go_error option \<times> 'w"

record 'w installer =
  os_Getenv :: "string \<Rightarrow> string"
  json_Unmarshal :: "string \<Rightarrow> go_error + InstallationConfig"
  clock_Now :: "'w \<Rightarrow> Time"
  validateContainerEnvironment :: "InstallationConfig \<Rightarrow> 'w \<Rightarrow> go_error option \<times> 'w"
  prepareInstallation :: "InstallationConfig \<Rightarrow> 'w \<Rightarrow> go_error option \<times> 'w"
  installSupabase :: "InstallationConfig \<Rightarrow> 'w \<Rightarrow> go_error option \<times> 'w"
  deployApplication :: "InstallationConfig \<Rightarrow> 'w \<Rightarrow> go_error option \<times> 'w"
  verifyInstallation :: "InstallationConfig \<Rightarrow> 'w \<Rightarrow> go_error option \<times> 'w"
  finalizeInstallation :: "InstallationConfig \<Rightarrow> 'w \<Rightarrow> go_error option \<times> 'w"

definition phases :: "'w installer \<Rightarrow> 'w phase list" where
  "phases i =
     [\<lparr>name = ''validation'', progress = 1 / 10, action = validateContainerEnvironment i\<rparr>,
      \<lparr>name = ''preparation'', progress = 2 / 10, action = prepareInstallation i\<rparr>,
      \<lparr>name = ''supabase'', progress = 6 / 10, action = installSupabase i\<rparr>,
      \<lparr>name = ''application'', progress = 8 / 10, action = deployApplication i\<rparr>,
      \<lparr>name = ''verification'', progress = 9 / 10, action = verifyInstallation i\<rparr>,
      \<lparr>name = ''complete'', progress = 1, action = finalizeInstallation i\<rparr>]"

text \<open>The update built before a phase runs, and the same value with the message replaced.\<close>

definition startUpdate :: "'w phase \<Rightarrow> Time \<Rightarrow> ProgressUpdate" where
  "startUpdate ph t =
     \<lparr>pu_Phase = name ph, pu_Step = [], pu_Progress = progress ph,
      pu_Message = ''Starting '' @ name ph @ '' phase...'', pu_Timestamp = t\<rparr>"

definition completedUpdate :: "'w phase \<Rightarrow> Time \<Rightarrow> ProgressUpdate" where
  "completedUpdate ph t =
     (startUpdate ph t)\<lparr>pu_Message := ''Completed '' @ name ph @ '' phase''\<rparr>"

text \<open>The \<open>for\<close> loop over the phases: the result, standard output, and the world.\<close>

fun runPhases ::
  "('w \<Rightarrow> Time) \<Rightarrow> InstallationConfig \<Rightarrow> 'w phase list \<Rightarrow> ProgressUpdate list \<Rightarrow> 'w
     \<Rightarrow> go_error option \<times> ProgressUpdate list \<times> 'w" where
  "runPhases now config [] out w = (None, out, w)"
| "runPhases now config (ph # rest) out w =
     (let t = now w;
          out1 = out @ [startUpdate ph t]
      in case action ph config w of
           (Some err, w') \<Rightarrow> (Some (Errorf (''phase '' @ name ph @ '' failed: '') err), out1, w')
         | (None, w') \<Rightarrow> runPhases now config rest (out1 @ [completedUpdate ph t]) w')"

definition runInstall :: "'w installer \<Rightarrow> 'w \<Rightarrow> go_error option \<times> ProgressUpdate list \<times> 'w" where
  "runInstall i w =
     (let configJSON = os_Getenv i ''SUBOSITY_CONFIG'' in
      if configJSON = [] then
        (Some (ErrorString ''SUBOSITY_CONFIG environment variable is required''), [], w)
      else
        case json_Unmarshal i configJSON of
          Inl err \<Rightarrow> (Some (Errorf ''failed to parse configuration: '' err), [], w)
        | Inr config \<Rightarrow> runPhases (clock_Now i) config (phases i) [] w)"

text \<open>
  For stating what a run does: the world in which phase number \<open>k\<close> starts when all
  phases before it have run, whatever they returned.
\<close>

fun world_before :: "InstallationConfig \<Rightarrow> 'w phase list \<Rightarrow> 'w \<Rightarrow> nat \<Rightarrow> 'w" where
  "world_before config phs w 0 = w"
| "world_before config [] w (Suc k) = w"
| "world_before config (ph # rest) w (Suc k) = world_before config rest (snd (action ph config w)) k"

text \<open>The two updates of phase number \<open>k\<close>, stamped when the phase starts.\<close>

definition phaseUpdates ::
  "('w \<Rightarrow> Time) \<Rightarrow> InstallationConfig \<Rightarrow> 'w phase list \<Rightarrow> 'w \<Rightarrow> nat \<Rightarrow> ProgressUpdate list" where
  "phaseUpdates now config phs w k =
     [startUpdate (phs ! k) (now (world_before config phs w k)),
      completedUpdate (phs ! k) (now (world_before config phs w k))]"

section \<open>Preflight validator (package system)\<close>

definition MinRAMBytes :: "64 word" where
  "MinRAMBytes = 2 * 1024 * 1024 * 1024"

definition MinDiskBytes :: "64 word" where
  "MinDiskBytes = 10 * 1024 * 1024 * 1024"

definition RequiredPorts :: "int list" where
  "RequiredPorts = [80, 443, 5432, 8000, 3000]"

text \<open>
  \<open>int64\<close> values are 64-bit words compared as signed numbers. Go's \<open>/\<close> on
  integers truncates towards zero: it is \<open>sdiv\<close> on the signed values (dividing by
  a positive constant cannot overflow).
\<close>

definition validateRAM :: "Time \<Rightarrow> 64 word \<Rightarrow> InstallError option" where
  "validateRAM now availableRAM =
     (if 0 <s availableRAM \<and> availableRAM <s MinRAMBytes then
        Some (NewSystemError now ''insufficient RAM''
          (''Available RAM: '' @ Sprintf_d (sint availableRAM sdiv (1024 * 1024))
             @ '' MB, Required: '' @ Sprintf_d (sint MinRAMBytes sdiv (1024 * 1024)) @ '' MB'')
          (Some [''Add more RAM to your system'',
                 ''Close other applications to free up memory'',
                 ''Consider using a system with at least 2GB RAM'']))
      else None)"

definition validateDiskSpace :: "Time \<Rightarrow> 64 word \<Rightarrow> InstallError option" where
  "validateDiskSpace now availableDisk =
     (if 0 <s availableDisk \<and> availableDisk <s MinDiskBytes then
        Some (NewSystemError now ''insufficient disk space''
          (''Available disk space: '' @ Sprintf_d (sint availableDisk sdiv (1024 * 1024 * 1024))
             @ '' GB, Required: '' @ Sprintf_d (sint MinDiskBytes sdiv (1024 * 1024 * 1024)) @ '' GB'')
          (Some [''Free up disk space by removing unnecessary files'',
                 ''Consider using a system with at least 10GB free space'',
                 ''Move the installation to a different partition with more space'']))
      else None)"

text \<open>
  \<open>net.DialTimeout\<close> is an input: given the network and the address it returns the
  error of the attempt, \<open>None\<close> when the connection was made. The one-second timeout
  only decides which of the two it is.
\<close>

type_synonym dialer = "string \<Rightarrow> string \<Rightarrow> go_error option"

definition isPortAvailable :: "dialer \<Rightarrow> int \<Rightarrow> bool" where
  "isPortAvailable dial port =
     (case dial ''tcp'' (''localhost:'' @ Sprintf_d port) of
        Some err \<Rightarrow> True
      | None \<Rightarrow> False)"

definition portConflictError :: "Time \<Rightarrow> int \<Rightarrow> InstallError" where
  "portConflictError now port =
     NewSystemError now ''port conflict''
       (''Port '' @ Sprintf_d port @ '' is already in use'')
       (Some [''Stop the service using port '' @ Sprintf_d port,
              ''Use 'sudo netstat -tlnp | grep :'' @ Sprintf_d port @ [CHR 0x27]
                 @ '' to identify the process'',
              ''Consider changing the configuration to use different ports''])"

fun validatePorts :: "Time \<Rightarrow> dialer \<Rightarrow> int list \<Rightarrow> InstallError option" where
  "validatePorts now dial [] = None"
| "validatePorts now dial (port # rest) =
     (if \<not> isPortAvailable dial port then Some (portConflictError now port)
      else validatePorts now dial rest)"

definition validatePortAvailability :: "Time \<Rightarrow> dialer \<Rightarrow> InstallError option" where
  "validatePortAvailability now dial = validatePorts now dial RequiredPorts"

section \<open>Configuration validation (package config)\<close>

text \<open>
  The library functions the validation calls are inputs: \<open>strings.ToLower\<close>,
  \<open>strings.TrimSpace\<close>, the matcher of the regular-expression engine (given the
  pattern and the subject) and \<open>mail.ParseAddress\<close> (the error it returns).
\<close>

record stdlib =
  strings_ToLower :: "string \<Rightarrow> string"
  strings_TrimSpace :: "string \<Rightarrow> string"
  regexp_MatchString :: "string \<Rightarrow> string \<Rightarrow> bool"
  mail_ParseAddress :: "string \<Rightarrow> go_error option"

definition domainRegex :: string where
  "domainRegex =
     ''^[a-zA-Z0-9]([a-zA-Z0-9-]{0,61}[a-zA-Z0-9])?('' @ [CHR 0x5C]
       @ ''.[a-zA-Z0-9]([a-zA-Z0-9-]{0,61}[a-zA-Z0-9])?)*$''"

definition validateEnvironment :: "Time \<Rightarrow> Environment \<Rightarrow> InstallError option" where
  "validateEnvironment now env =
     (if env = EnvironmentDevelopment \<or> env = EnvironmentStaging \<or> env = EnvironmentProduction
      then None
      else Some (NewConfigError now ''invalid environment''
             (''must be one of: '' @ EnvironmentDevelopment @ '', '' @ EnvironmentStaging
                @ '', '' @ EnvironmentProduction)))"

definition validateDomain :: "stdlib \<Rightarrow> Time \<Rightarrow> string \<Rightarrow> InstallError option" where
  "validateDomain lib now domain0 =
     (if domain0 = [] then Some (NewConfigError now ''domain is required'' [])
      else
        let domain = strings_TrimSpace lib (strings_ToLower lib domain0) in
        if domain = ''localhost'' \<or> suffix ''.local'' domain then None
        else if \<not> regexp_MatchString lib domainRegex domain then
          Some (NewConfigError now ''invalid domain format''
                  (''domain '' @ [CHR 0x27] @ domain @ [CHR 0x27] @ '' is not a valid FQDN''))
        else if length domain > 253 then
          Some (NewConfigError now ''domain too long''
                  ''domain name must not exceed 253 characters'')
        else None)"

definition validateEmail :: "stdlib \<Rightarrow> Time \<Rightarrow> string \<Rightarrow> InstallError option" where
  "validateEmail lib now email =
     (if email = [] then None
      else case mail_ParseAddress lib email of
             Some err \<Rightarrow> Some (NewConfigError now ''invalid email format''
                                 (''email '' @ [CHR 0x27] @ email @ [CHR 0x27] @ '' is not valid''))
           | None \<Rightarrow> None)"

definition validateSSLConfig :: "stdlib \<Rightarrow> Time \<Rightarrow> SSLConfig option \<Rightarrow> InstallError option" where
  "validateSSLConfig lib now sslp =
     (case sslp of
        None \<Rightarrow> None
      | Some ssl \<Rightarrow>
          if ssl_Provider ssl = SSLProviderLetsEncrypt then
            (if ssl_Email ssl = [] then
               Some (NewConfigError now ''email required for Let's Encrypt''
                 ''Let's Encrypt requires a valid email address for certificate registration'')
             else validateEmail lib now (ssl_Email ssl))
          else if ssl_Provider ssl = SSLProviderCustom then
            (if ssl_CustomCert ssl = [] \<or> ssl_CustomKey ssl = [] then
               Some (NewConfigError now ''custom SSL requires both certificate and key''
                 ''both custom_cert and custom_key must be provided for custom SSL'')
             else None)
          else if ssl_Provider ssl = SSLProviderSelfSigned then None
          else if ssl_Provider ssl = [] then None
          else
            Some (NewConfigError now ''invalid SSL provider''
              (''SSL provider must be one of: '' @ SSLProviderLetsEncrypt @ '', ''
                 @ SSLProviderSelfSigned @ '', '' @ SSLProviderCustom)))"

text \<open>A nil \<open>*InstallationConfig\<close> is \<open>None\<close>.\<close>

definition ValidateConfig :: "stdlib \<Rightarrow> Time \<Rightarrow> InstallationConfig option \<Rightarrow> InstallError option" where
  "ValidateConfig lib now configp =
     (case configp of
        None \<Rightarrow> Some (NewConfigError now ''configuration cannot be nil'' [])
      | Some config \<Rightarrow>
     (case validateEnvironment now (ic_Environment config) of
        Some err \<Rightarrow> Some err
      | None \<Rightarrow>
     (case validateDomain lib now (ic_Domain config) of
        Some err \<Rightarrow> Some err
      | None \<Rightarrow>
     (case (if ic_Email config \<noteq> [] then validateEmail lib now (ic_Email config)
            else if ic_Environment config = EnvironmentProduction then
              Some (NewConfigError now ''email is required for production environment''
                      ''email is needed for SSL certificate generation'')
            else None) of
        Some err \<Rightarrow> Some err
      | None \<Rightarrow>
     (case validateSSLConfig lib now (Some (ic_SSL config)) of
        Some err \<Rightarrow> Some err
      | None \<Rightarrow> None)))))"

section \<open>Concrete inputs used to evaluate the functions\<close>

text \<open>A host on which port 443, and no other port, accepts a connection.\<close>

definition dial_443_busy :: dialer where
  "dial_443_busy network address =
     (if address = ''localhost:443'' then None
      else Some (ErrorString ''connect: connection refused''))"

text \<open>A host on which no port accepts a connection.\<close>

definition dial_none_busy :: dialer where
  "dial_none_busy network address = Some (ErrorString ''connect: connection refused'')"

text \<open>
  A host on which every directory can be created, the configuration serialises, and
  every command starts and exits with code 0 (\<open>cmd.Wait()\<close> returns nil); the
  argument is the schedule of the container's run. Its decoders accept the text
  \<open>{}\<close>, which \<open>json.Unmarshal\<close> decodes without error into a value with every
  field zero, and no other of the lines used below, which are not JSON.
\<close>

definition exit_zero :: command where
  "exit_zero = \<lparr>StdoutPipe_err = None, StderrPipe_err = None, Start_err = None, Wait_err = None\<rparr>"

definition empty_ProgressUpdate :: ProgressUpdate where
  "empty_ProgressUpdate =
     \<lparr>pu_Phase = [], pu_Step = [], pu_Progress = 0, pu_Message = [], pu_Timestamp = 0\<rparr>"

definition empty_InstallError :: InstallError where
  "empty_InstallError =
     MkInstallError [] [] [] [] None
       \<lparr>ec_Component = [], ec_Operation = [], ec_Phase = [], ec_Environment = []\<rparr> 0"

definition decode_ProgressUpdate :: "string \<Rightarrow> ProgressUpdate option" where
  "decode_ProgressUpdate line = (if line = ''{}'' then Some empty_ProgressUpdate else None)"

definition decode_InstallError :: "string \<Rightarrow> InstallError option" where
  "decode_InstallError line = (if line = ''{}'' then Some empty_InstallError else None)"

definition host_exit_zero :: "event list \<Rightarrow> host" where
  "host_exit_zero events =
     \<lparr>time_Now = 0, os_MkdirAll = (\<lambda>path. None), json_Marshal = (\<lambda>config. Inr ''{}''),
      json_Unmarshal_ProgressUpdate = decode_ProgressUpdate,
      json_Unmarshal_InstallError = decode_InstallError,
      exec_Command = (\<lambda>name args. exit_zero), schedule = events\<rparr>"


text \<open>The error of a read from a pipe that \<open>cmd.Wait()\<close> has closed.\<close>

definition ErrClosed :: go_error where
  "ErrClosed = ErrorString ''read |0: file already closed''"

text \<open>
  A library that leaves its argument alone, as Go's \<open>strings.ToLower\<close> and
  \<open>strings.TrimSpace\<close> do on lower-case text without blanks, and that accepts no
  domain and every address.
\<close>

definition plain_lib :: stdlib where
  "plain_lib =
     \<lparr>strings_ToLower = (\<lambda>s. s), strings_TrimSpace = (\<lambda>s. s),
      regexp_MatchString = (\<lambda>pattern s. False), mail_ParseAddress = (\<lambda>s. None)\<rparr>"

definition config_of :: "Environment \<Rightarrow> string \<Rightarrow> string \<Rightarrow> InstallationConfig" where
  "config_of env domain email =
     \<lparr>ic_Environment = env, ic_Domain = domain, ic_Email = email,
      ic_SSL = \<lparr>ssl_Provider = [], ssl_Email = [], ssl_CustomCert = [], ssl_CustomKey = [],
                ssl_AutoRenew = False\<rparr>,
      ic_CreatedAt = 0, ic_Version = []\<rparr>"

definition host_with :: "64 word \<Rightarrow> 64 word \<Rightarrow> HostMetadata" where
  "host_with ram disk =
     \<lparr>hm_OS = ''ubuntu'', hm_Version = ''22.04'', hm_Architecture = ''x86_64'',
      hm_DockerVersion = [], hm_AvailableRAM = ram, hm_AvailableDisk = disk, hm_Timestamp = 0\<rparr>"

text \<open>
  An installer whose world counts the actions that have run and whose clock reads that
  count: one in which every action succeeds, and one in which the third phase fails.
\<close>

definition succeeds :: "InstallationConfig \<Rightarrow> nat \<Rightarrow> go_error option \<times> nat" where
  "succeeds config w = (None, Suc w)"

definition fails_with :: "string \<Rightarrow> InstallationConfig \<Rightarrow> nat \<Rightarrow> go_error option \<times> nat" where
  "fails_with msg config w = (Some (ErrorString msg), Suc w)"

definition installer_all_ok :: "nat installer" where
  "installer_all_ok =
     \<lparr>os_Getenv = (\<lambda>key. ''{}''),
      json_Unmarshal = (\<lambda>text. Inr (config_of EnvironmentDevelopment ''app.local'' [])),
      clock_Now = (\<lambda>w. w),
      validateContainerEnvironment = succeeds, prepareInstallation = succeeds,
      installSupabase = succeeds, deployApplication = succeeds,
      verifyInstallation = succeeds, finalizeInstallation = succeeds\<rparr>"

definition installer_supabase_fails :: "nat installer" where
  "installer_supabase_fails =
     installer_all_ok\<lparr>installSupabase := fails_with ''failed to install Supabase CLI''\<rparr>"

section \<open>Properties\<close>

subsection \<open>The error codes\<close>

lemmas ErrCode_defs =
  ErrCodeSystemRequirements_def ErrCodePortConflict_def ErrCodeDockerInstall_def
  ErrCodeSupabaseSetup_def ErrCodeNetworkTimeout_def ErrCodePermissionDenied_def
  ErrCodeConfigInvalid_def ErrCodeUnsupportedOS_def ErrCodeInvalidFormat_def

subsection \<open>Decimal rendering\<close>

lemma digit_cases:
  assumes "d < 10"
  shows "d \<in> {0, 1, 2, 3, 4, 5, 6, 7, 8, 9 :: nat}"
  using assms by auto

lemma digit_val_digit_char: "d < 10 \<Longrightarrow> digit_val (digit_char d) = d"
  using digit_cases [of d] by (auto simp add: digit_val_def digit_char_def)

lemma dec_nat_snoc: "dec_nat (s @ [c]) = 10 * dec_nat s + digit_val c"
  by (simp add: dec_nat_def)

lemma dec_nat_nat_dec: "dec_nat (nat_dec n) = n"
proof (induction n rule: nat_dec.induct)
  case (1 n)
  show ?case
  proof (cases "n < 10")
    case True
    then show ?thesis
      by (simp add: nat_dec.simps [of n] dec_nat_def digit_val_digit_char)
  next
    case False
    with 1 show ?thesis
      by (simp add: nat_dec.simps [of n] dec_nat_snoc digit_val_digit_char)
  qed
qed

lemma nat_dec_not_Nil: "nat_dec n \<noteq> []"
  by (subst nat_dec.simps) simp

lemma digit_char_not_minus: "d < 10 \<Longrightarrow> digit_char d \<noteq> CHR ''-''"
  using digit_cases [of d] by (auto simp add: digit_char_def)

lemma hd_nat_dec_not_minus: "hd (nat_dec n) \<noteq> CHR ''-''"
proof (induction n rule: nat_dec.induct)
  case (1 n)
  show ?case
  proof (cases "n < 10")
    case True
    then show ?thesis
      by (simp add: nat_dec.simps [of n] digit_char_not_minus)
  next
    case False
    with 1 show ?thesis
      by (simp add: nat_dec.simps [of n] nat_dec_not_Nil)
  qed
qed

lemma Atoi_Sprintf_d: "Atoi (Sprintf_d i) = i"
proof (cases "i < 0")
  case True
  then show ?thesis
    by (simp add: Atoi_def Sprintf_d_def dec_nat_nat_dec)
next
  case False
  obtain c cs where eq: "nat_dec (nat i) = c # cs"
    using nat_dec_not_Nil [of "nat i"] by (cases "nat_dec (nat i)") auto
  have "c \<noteq> CHR ''-''"
    using hd_nat_dec_not_minus [of "nat i"] eq by simp
  moreover have "dec_nat (c # cs) = nat i"
    using dec_nat_nat_dec [of "nat i"] eq by simp
  ultimately show ?thesis
    using False by (simp add: Atoi_def Sprintf_d_def eq)
qed

lemma Sprintf_d_inj: "Sprintf_d i = Sprintf_d j \<Longrightarrow> i = j"
  by (metis Atoi_Sprintf_d)

subsection \<open>The exit-code mapper\<close>

lemma Sprintf_d_137: "Sprintf_d 137 = ''137''"
  by (simp add: Sprintf_d_def nat_dec.simps digit_char_def)

text \<open>
  Claim C1. When \<open>cmd.Wait()\<close> reports an \<open>*exec.ExitError\<close>,
  \<open>processContainerError\<close> maps its exit code into the taxonomy: 1 gives
  \<open>CONFIG_INVALID\<close>, 2 gives \<open>SYSTEM_REQUIREMENTS\<close>, 3 gives
  \<open>DOCKER_INSTALL_FAILED\<close>, 4 gives \<open>SUPABASE_SETUP_FAILED\<close>, and every other
  exit code gives \<open>SYSTEM_REQUIREMENTS\<close> with a message that ends with the decimal
  rendering of the code (which determines the code, by \<open>Atoi_Sprintf_d\<close>). The
  function is total, and its result depends on the exit code and the clock only.
\<close>

theorem processContainerError_exit_codes:
  "ie_Code (processContainerError now (ExitError 1 s)) = ErrCodeConfigInvalid
   \<and> ie_Code (processContainerError now (ExitError 2 s)) = ErrCodeSystemRequirements
   \<and> ie_Code (processContainerError now (ExitError 3 s)) = ErrCodeDockerInstall
   \<and> ie_Code (processContainerError now (ExitError 4 s)) = ErrCodeSupabaseSetup
   \<and> (c \<notin> {1, 2, 3, 4} \<longrightarrow>
          ie_Code (processContainerError now (ExitError c s)) = ErrCodeSystemRequirements
        \<and> ie_Message (processContainerError now (ExitError c s)) =
            ''container installation failed with exit code '' @ Sprintf_d c)
   \<and> processContainerError now (ExitError c s) = processContainerError now (ExitError c s')"
  by (simp add: NewInstallationError_def)

theorem processContainerError_exit_codes_witness:
  "(137 :: int) \<notin> {1, 2, 3, 4}
   \<and> ie_Code (processContainerError 0 (ExitError 137 ''exit status 137'')) = ErrCodeSystemRequirements
   \<and> ie_Message (processContainerError 0 (ExitError 137 ''exit status 137'')) =
        ''container installation failed with exit code 137''"
proof -
  note processContainerError_exit_codes [of 0 "''exit status 137''" 137 "[]"]
  with Sprintf_d_137 show ?thesis by simp
qed

subsection \<open>Classifying the lines of the two streams\<close>





lemmas run_defs = runContainer_def RunInstaller_def host_exit_zero_def exit_zero_def
  ensureDataDirectory_def pullImage_def started_def result_of_def sendScanErr_def
  progressLine_def errorLine_def decode_ProgressUpdate_def decode_InstallError_def
  stdout_events_def stderr_events_def




subsection \<open>Memory and disk checks\<close>

lemma one_GiB_below_MinRAMBytes:
  "(0 :: 64 word) <s 1073741824 \<and> (1073741824 :: 64 word) <s MinRAMBytes"
  by (simp add: MinRAMBytes_def word_sless_alt)

lemma five_GiB_below_MinDiskBytes:
  "(0 :: 64 word) <s 5368709120 \<and> (5368709120 :: 64 word) <s MinDiskBytes"
  by (simp add: MinDiskBytes_def word_sless_alt)

lemma validateRAM_details_example:
  "map_option ie_Details (validateRAM 0 1073741824) =
     Some ''Available RAM: 1024 MB, Required: 2048 MB''"
  by (simp add: validateRAM_def MinRAMBytes_def word_sless_alt NewSystemError_def
      Sprintf_d_def nat_dec.simps digit_char_def signed_divide_int_def)

lemma failed_RAM_measurement_with_20_GB_disk:
  "validateRAM 0 (hm_AvailableRAM (host_with 0 21474836480)) = None
   \<and> validateDiskSpace 0 (hm_AvailableDisk (host_with 0 21474836480)) = None"
  by (simp add: host_with_def validateRAM_def validateDiskSpace_def MinDiskBytes_def
      word_sless_alt)

text \<open>
  Claim C6. For every HostMetadata whose \<open>AvailableRAM\<close> is zero \<open>validateRAM\<close>
  returns no error, and for every HostMetadata whose \<open>AvailableDisk\<close> is zero
  \<open>validateDiskSpace\<close> returns no error; a strictly positive measurement below the
  minimum (2 GiB of memory, 10 GiB of disk) does produce the insufficient-resource
  error, a \<open>SYSTEM_REQUIREMENTS\<close> error with the message \<open>insufficient RAM\<close> or
  \<open>insufficient disk space\<close>.
\<close>

theorem zero_measurement_never_insufficient:
  "(hm_AvailableRAM m = 0 \<longrightarrow> validateRAM now (hm_AvailableRAM m) = None)
   \<and> (hm_AvailableDisk m = 0 \<longrightarrow> validateDiskSpace now (hm_AvailableDisk m) = None)
   \<and> (0 <s hm_AvailableRAM m' \<and> hm_AvailableRAM m' <s MinRAMBytes \<longrightarrow>
        (\<exists>e. validateRAM now (hm_AvailableRAM m') = Some e
           \<and> ie_Code e = ErrCodeSystemRequirements \<and> ie_Message e = ''insufficient RAM''))
   \<and> (0 <s hm_AvailableDisk m' \<and> hm_AvailableDisk m' <s MinDiskBytes \<longrightarrow>
        (\<exists>e. validateDiskSpace now (hm_AvailableDisk m') = Some e
           \<and> ie_Code e = ErrCodeSystemRequirements
           \<and> ie_Message e = ''insufficient disk space''))"
  by (simp add: validateRAM_def validateDiskSpace_def NewSystemError_def)

theorem zero_measurement_never_insufficient_witness:
  "hm_AvailableRAM (host_with 0 0) = 0 \<and> hm_AvailableDisk (host_with 0 0) = 0
   \<and> validateRAM 0 (hm_AvailableRAM (host_with 0 0)) = None
   \<and> validateDiskSpace 0 (hm_AvailableDisk (host_with 0 0)) = None
   \<and> 0 <s hm_AvailableRAM (host_with 1073741824 5368709120)
   \<and> hm_AvailableRAM (host_with 1073741824 5368709120) <s MinRAMBytes
   \<and> 0 <s hm_AvailableDisk (host_with 1073741824 5368709120)
   \<and> hm_AvailableDisk (host_with 1073741824 5368709120) <s MinDiskBytes
   \<and> map_option ie_Message (validateRAM 0 (hm_AvailableRAM (host_with 1073741824 5368709120)))
        = Some ''insufficient RAM''
   \<and> map_option ie_Message
         (validateDiskSpace 0 (hm_AvailableDisk (host_with 1073741824 5368709120)))
        = Some ''insufficient disk space''"
  using zero_measurement_never_insufficient
          [of "host_with 0 0" 0 "host_with 1073741824 5368709120"]
        one_GiB_below_MinRAMBytes five_GiB_below_MinDiskBytes
  by (auto simp add: host_with_def)

subsection \<open>Port availability\<close>

lemma validatePorts_find:
  "validatePorts now dial ports =
     map_option (portConflictError now)
       (find (\<lambda>p. dial ''tcp'' (''localhost:'' @ Sprintf_d p) = None) ports)"
  by (induction ports) (auto simp add: isPortAvailable_def split: option.splits)

lemma Sprintf_d_ports:
  "Sprintf_d 80 = ''80''" "Sprintf_d 443 = ''443''" "Sprintf_d 5432 = ''5432''"
  "Sprintf_d 8000 = ''8000''" "Sprintf_d 3000 = ''3000''"
  by (simp_all add: Sprintf_d_def nat_dec.simps digit_char_def)

text \<open>
  Claim C7, as stated, fails: with port 443 accepting a connection, the error that
  port validation returns carries the code \<open>SYSTEM_REQUIREMENTS\<close>, the code
  \<open>NewSystemError\<close> gives to every error of the validator, and not \<open>PORT_CONFLICT\<close>.
\<close>

theorem validatePortAvailability_port_443_counterexample:
  "isPortAvailable dial_443_busy 443 = False
   \<and> map_option ie_Code (validatePortAvailability 0 dial_443_busy)
        = Some ErrCodeSystemRequirements
   \<and> map_option ie_Code (validatePortAvailability 0 dial_443_busy) \<noteq> Some ErrCodePortConflict"
  by (simp add: validatePortAvailability_def RequiredPorts_def isPortAvailable_def
      dial_443_busy_def Sprintf_d_ports portConflictError_def NewSystemError_def ErrCode_defs)

text \<open>
  Claim C7, amended. The required ports 80, 443, 5432, 8000 and 3000 are tried in this
  order. Port validation returns the error of the first port whose loopback connection
  succeeds: an InstallError with the code \<open>SYSTEM_REQUIREMENTS\<close> and the message
  \<open>port conflict\<close>, whose suggestions include the netstat command that identifies
  the process on that port; so a successful connection to any required port makes port
  validation fail. A port whose connection fails or times out is treated as available
  and validation goes on with the next port, and when no connection succeeds port
  validation returns no error.
\<close>

theorem validatePortAvailability_first_conflict:
  "validatePortAvailability now dial =
     map_option (portConflictError now)
       (find (\<lambda>p. dial ''tcp'' (''localhost:'' @ Sprintf_d p) = None) RequiredPorts)
   \<and> ie_Code (portConflictError now p) = ErrCodeSystemRequirements
   \<and> ie_Message (portConflictError now p) = ''port conflict''
   \<and> ''Use 'sudo netstat -tlnp | grep :'' @ Sprintf_d p @ [CHR 0x27] @ '' to identify the process''
        \<in> set (ie_Suggestions (portConflictError now p))
   \<and> (p \<in> set RequiredPorts \<and> dial ''tcp'' (''localhost:'' @ Sprintf_d p) = None \<longrightarrow>
        validatePortAvailability now dial \<noteq> None)
   \<and> (dial ''tcp'' (''localhost:'' @ Sprintf_d p) \<noteq> None \<longrightarrow>
        isPortAvailable dial p
        \<and> validatePorts now dial (p # rest) = validatePorts now dial rest)
   \<and> ((\<forall>q \<in> set RequiredPorts. dial ''tcp'' (''localhost:'' @ Sprintf_d q) \<noteq> None) \<longrightarrow>
        validatePortAvailability now dial = None)"
proof -
  have first: "validatePortAvailability now dial =
     map_option (portConflictError now)
       (find (\<lambda>p. dial ''tcp'' (''localhost:'' @ Sprintf_d p) = None) RequiredPorts)"
    by (simp add: validatePortAvailability_def validatePorts_find)
  have busy: "p \<in> set RequiredPorts \<and> dial ''tcp'' (''localhost:'' @ Sprintf_d p) = None \<longrightarrow>
        validatePortAvailability now dial \<noteq> None"
    unfolding first by (auto simp add: find_None_iff)
  have free: "(\<forall>q \<in> set RequiredPorts. dial ''tcp'' (''localhost:'' @ Sprintf_d q) \<noteq> None) \<longrightarrow>
        validatePortAvailability now dial = None"
    unfolding first by (auto simp add: find_None_iff)
  have step: "dial ''tcp'' (''localhost:'' @ Sprintf_d p) \<noteq> None \<longrightarrow>
        isPortAvailable dial p
        \<and> validatePorts now dial (p # rest) = validatePorts now dial rest"
    by (auto simp add: isPortAvailable_def split: option.splits)
  show ?thesis
    using first busy free step by (simp add: portConflictError_def NewSystemError_def)
qed

theorem validatePortAvailability_first_conflict_witness:
  "443 \<in> set RequiredPorts \<and> dial_443_busy ''tcp'' (''localhost:'' @ Sprintf_d 443) = None
   \<and> dial_443_busy ''tcp'' (''localhost:'' @ Sprintf_d 80) \<noteq> None
   \<and> list_all (\<lambda>q. dial_none_busy ''tcp'' (''localhost:'' @ Sprintf_d q) \<noteq> None) RequiredPorts
   \<and> validatePortAvailability 0 dial_443_busy = Some (portConflictError 0 443)
   \<and> ie_Code (portConflictError 0 443) = ErrCodeSystemRequirements
   \<and> ''Use 'sudo netstat -tlnp | grep :443' to identify the process''
        \<in> set (ie_Suggestions (portConflictError 0 443))
   \<and> validatePorts 0 dial_443_busy [80, 443] = validatePorts 0 dial_443_busy [443]
   \<and> validatePortAvailability 0 dial_none_busy = None"
  using validatePortAvailability_first_conflict [of 0 dial_443_busy 443 "[]"]
    validatePortAvailability_first_conflict [of 0 dial_443_busy 80 "[443]"]
    validatePortAvailability_first_conflict [of 0 dial_none_busy 80 "[]"]
  by (simp add: RequiredPorts_def dial_443_busy_def dial_none_busy_def Sprintf_d_ports)

subsection \<open>Configuration validation\<close>

lemma validateDomain_Code:
  "validateDomain lib now d = Some e \<Longrightarrow> ie_Code e = ErrCodeConfigInvalid"
  by (auto simp add: validateDomain_def NewConfigError_def Let_def split: if_splits)

lemma validateEnvironment_known:
  "validateEnvironment now EnvironmentProduction = None"
  "validateEnvironment now EnvironmentDevelopment = None"
  "validateEnvironment now EnvironmentStaging = None"
  by (simp_all add: validateEnvironment_def)

lemma Environment_distinct:
  "EnvironmentDevelopment \<noteq> EnvironmentProduction"
  "EnvironmentStaging \<noteq> EnvironmentProduction"
  "EnvironmentProduction \<noteq> EnvironmentDevelopment"
  "EnvironmentProduction \<noteq> EnvironmentStaging"
  by (simp_all add: EnvironmentDevelopment_def EnvironmentProduction_def EnvironmentStaging_def)

lemma validateDomain_app_local: "validateDomain plain_lib 0 ''app.local'' = None"
  by (simp add: validateDomain_def plain_lib_def Let_def suffix_def)

lemma validateSSLConfig_config_of:
  "validateSSLConfig plain_lib 0 (Some (ic_SSL (config_of env domain email))) = None"
  by (simp add: validateSSLConfig_def config_of_def SSLProviderLetsEncrypt_def
      SSLProviderCustom_def SSLProviderSelfSigned_def)

text \<open>
  Claim C10. For every InstallationConfig with the environment \<open>prod\<close> and an empty
  email, \<open>ValidateConfig\<close> returns an InstallError with the code
  \<open>CONFIG_INVALID\<close>; when the domain passes its own check, which comes first, that
  error is the one saying that the email is required for production. A config with an
  empty email and the environment \<open>dev\<close> or \<open>staging\<close> that is otherwise valid (its
  domain and its SSL configuration pass their checks) passes validation.
\<close>

theorem ValidateConfig_production_requires_email:
  "(ic_Environment c = EnvironmentProduction \<and> ic_Email c = [] \<longrightarrow>
      (\<exists>e. ValidateConfig lib now (Some c) = Some e \<and> ie_Code e = ErrCodeConfigInvalid)
      \<and> (validateDomain lib now (ic_Domain c) = None \<longrightarrow>
           ValidateConfig lib now (Some c) =
             Some (NewConfigError now ''email is required for production environment''
                     ''email is needed for SSL certificate generation'')))
   \<and> ((ic_Environment c' = EnvironmentDevelopment \<or> ic_Environment c' = EnvironmentStaging)
        \<and> ic_Email c' = []
        \<and> validateDomain lib now (ic_Domain c') = None
        \<and> validateSSLConfig lib now (Some (ic_SSL c')) = None \<longrightarrow>
      ValidateConfig lib now (Some c') = None)"
proof -
  have prod: "ic_Environment c = EnvironmentProduction \<and> ic_Email c = [] \<longrightarrow>
      (\<exists>e. ValidateConfig lib now (Some c) = Some e \<and> ie_Code e = ErrCodeConfigInvalid)
      \<and> (validateDomain lib now (ic_Domain c) = None \<longrightarrow>
           ValidateConfig lib now (Some c) =
             Some (NewConfigError now ''email is required for production environment''
                     ''email is needed for SSL certificate generation''))"
    by (cases "validateDomain lib now (ic_Domain c)")
      (auto simp add: ValidateConfig_def validateEnvironment_known validateDomain_Code
        NewConfigError_def)
  have other:
    "(ic_Environment c' = EnvironmentDevelopment \<or> ic_Environment c' = EnvironmentStaging)
        \<and> ic_Email c' = []
        \<and> validateDomain lib now (ic_Domain c') = None
        \<and> validateSSLConfig lib now (Some (ic_SSL c')) = None \<longrightarrow>
      ValidateConfig lib now (Some c') = None"
    by (auto simp add: ValidateConfig_def validateEnvironment_known Environment_distinct)
  from prod other show ?thesis by blast
qed

theorem ValidateConfig_production_requires_email_witness:
  "ic_Environment (config_of EnvironmentProduction ''app.local'' []) = EnvironmentProduction
   \<and> ic_Email (config_of EnvironmentProduction ''app.local'' []) = []
   \<and> validateDomain plain_lib 0 (ic_Domain (config_of EnvironmentProduction ''app.local'' []))
        = None
   \<and> ValidateConfig plain_lib 0 (Some (config_of EnvironmentProduction ''app.local'' [])) =
        Some (NewConfigError 0 ''email is required for production environment''
                ''email is needed for SSL certificate generation'')
   \<and> ic_Environment (config_of EnvironmentDevelopment ''app.local'' []) = EnvironmentDevelopment
   \<and> ic_Email (config_of EnvironmentDevelopment ''app.local'' []) = []
   \<and> validateDomain plain_lib 0 (ic_Domain (config_of EnvironmentDevelopment ''app.local'' []))
        = None
   \<and> validateSSLConfig plain_lib 0
        (Some (ic_SSL (config_of EnvironmentDevelopment ''app.local'' []))) = None
   \<and> ValidateConfig plain_lib 0 (Some (config_of EnvironmentDevelopment ''app.local'' [])) = None"
  using ValidateConfig_production_requires_email
     [of "config_of EnvironmentProduction ''app.local'' []" plain_lib 0
         "config_of EnvironmentDevelopment ''app.local'' []"]
    validateDomain_app_local validateSSLConfig_config_of
  by (simp add: config_of_def)

subsection \<open>Supervising the container\<close>

lemma run_events_panicked: "panicked st \<noteq> None \<Longrightarrow> run_events h cmd evs st = st"
  by (cases evs) simp_all

lemma run_events_append:
  "run_events h cmd (xs @ ys) st = run_events h cmd ys (run_events h cmd xs st)"
proof (induction xs arbitrary: st)
  case Nil
  then show ?case by simp
next
  case (Cons ev evs)
  show ?case
  proof (cases "panicked st")
    case None
    then show ?thesis using Cons.IH by simp
  next
    case (Some msg)
    then show ?thesis by (simp add: run_events_panicked)
  qed
qed

lemma run_events_stdout_lines:
  assumes "panicked st = None" and "\<not> stdoutDone st"
    and "scanProgress (json_Unmarshal_ProgressUpdate h) ls (chans st) = Ok c"
  shows "run_events h cmd (map StdoutLine ls) st = st\<lparr>chans := c\<rparr>"
  using assms
proof (induction ls arbitrary: st)
  case Nil
  then show ?case by simp
next
  case (Cons line rest)
  from Cons.prems(3) obtain c1 where
    c1: "progressLine (json_Unmarshal_ProgressUpdate h) line (chans st) = Ok c1"
    and rest: "scanProgress (json_Unmarshal_ProgressUpdate h) rest c1 = Ok c"
    by (auto split: outcome.splits)
  have "run_events h cmd (map StdoutLine rest) (st\<lparr>chans := c1\<rparr>) = (st\<lparr>chans := c1\<rparr>)\<lparr>chans := c\<rparr>"
    using Cons.prems(1,2) rest by (intro Cons.IH) simp_all
  then show ?case
    using Cons.prems(1,2) c1 by simp
qed

lemma run_events_stdout:
  assumes "panicked st = None" and "\<not> stdoutDone st"
    and "streamProgressOutput (json_Unmarshal_ProgressUpdate h) rd (chans st) = Ok c"
  shows "run_events h cmd (stdout_events rd) st = st\<lparr>chans := c, stdoutDone := True\<rparr>"
proof -
  from assms(3) obtain c1 where
    c1: "scanProgress (json_Unmarshal_ProgressUpdate h) (scan_lines rd) (chans st) = Ok c1"
    and c: "c = sendScanErr (scan_Err rd) c1"
    by (auto simp add: streamProgressOutput_def split: outcome.splits)
  show ?thesis
    using assms(1,2) run_events_stdout_lines [OF assms(1,2) c1, of cmd] c
    by (simp add: stdout_events_def run_events_append)
qed

lemma run_events_stderr_lines:
  assumes "panicked st = None" and "\<not> stderrDone st"
  shows "run_events h cmd (map StderrLine ls) st =
           st\<lparr>chans := scanError (json_Unmarshal_InstallError h) ls (chans st)\<rparr>"
  using assms
proof (induction ls arbitrary: st)
  case Nil
  then show ?case by simp
next
  case (Cons line rest)
  have "run_events h cmd (map StderrLine rest)
          (st\<lparr>chans := errorLine (json_Unmarshal_InstallError h) line (chans st)\<rparr>) =
        (st\<lparr>chans := errorLine (json_Unmarshal_InstallError h) line (chans st)\<rparr>)
          \<lparr>chans := scanError (json_Unmarshal_InstallError h) rest
             (chans (st\<lparr>chans := errorLine (json_Unmarshal_InstallError h) line (chans st)\<rparr>))\<rparr>"
    using Cons.prems by (intro Cons.IH) simp_all
  then show ?case
    using Cons.prems by simp
qed

lemma run_events_stderr:
  assumes "panicked st = None" and "\<not> stderrDone st"
  shows "run_events h cmd (stderr_events rd) st =
           st\<lparr>chans := streamErrorOutput (json_Unmarshal_InstallError h) rd (chans st),
              stderrDone := True\<rparr>"
  using assms run_events_stderr_lines [OF assms, of h cmd "scan_lines rd"]
  by (simp add: stderr_events_def run_events_append streamErrorOutput_def)

lemma runContainer_exit_zero_after_readers:
  "RunInstaller
     (host_exit_zero
        (stdout_events (bufio_Scanner [''{}'', ''plain text''] None)
           @ stderr_events (bufio_Scanner [] None) @ [WaitReturns, Select FromWaitChan]))
     (config_of EnvironmentDevelopment ''app.local'' []) [] =
   (Returned None,
    [(InfoLevel, ''Starting container-based installation...''),
     (DebugLevel, ''Created data directory structure at /opt/subosity''),
     (InfoLevel, ''Pulling installer container image...''),
     (InfoLevel, ''Successfully pulled installer container image''),
     (InfoLevel, ''Running installer container...''),
     (InfoLevel, ''plain text''),
     (SuccessLevel, ''Container-based installation completed successfully'')])"
  by (simp add: run_defs Let_def bufio_Scanner_def MaxScanTokenSize_def DefaultInstallPath_def)

text \<open>
  Claim C8: a run in which the container exits with code 0 and no structured error is
  observed on its error stream makes \<open>runContainer\<close> and \<open>RunInstaller\<close> return
  no error. The code does not keep this. On a host where the container exits with code
  0 and never writes a structured error, two schedules of the goroutines of
  \<open>runContainer\<close> end otherwise. In the first the stdout reader, whose pipe
  \<open>cmd.Wait()\<close> has closed, sends its read error on the error channel and the
  \<open>select\<close> takes it: both functions return a stream error. In the second the
  \<open>select\<close> takes the result of \<open>cmd.Wait()\<close> and closes the progress channel
  while the stdout reader still holds a progress line: the reader's send panics.
\<close>

theorem runContainer_exit_zero_fails:
  "Wait_err exit_zero = None
   \<and> fst (runContainer
          (host_exit_zero [StdoutStops (Some ErrClosed), Select FromErrorChan, WaitReturns])
          (config_of EnvironmentDevelopment ''app.local'' []) []) =
        Returned (Some (Errorf ''container stream error: '' ErrClosed))
   \<and> fst (RunInstaller
          (host_exit_zero [StdoutStops (Some ErrClosed), Select FromErrorChan, WaitReturns])
          (config_of EnvironmentDevelopment ''app.local'' []) []) =
        Returned (Some (Errorf ''container stream error: '' ErrClosed))
   \<and> fst (runContainer
          (host_exit_zero [WaitReturns, Select FromWaitChan, StdoutLine ''{}''])
          (config_of EnvironmentDevelopment ''app.local'' []) []) =
        Panicked ''send on closed channel''
   \<and> fst (RunInstaller
          (host_exit_zero [WaitReturns, Select FromWaitChan, StdoutLine ''{}''])
          (config_of EnvironmentDevelopment ''app.local'' []) []) =
        Panicked ''send on closed channel''"
  by (simp add: run_defs Let_def)

subsection \<open>The phase pipeline\<close>

lemma phaseUpdates_Suc:
  "phaseUpdates now c (ph # rest) w (Suc k) = phaseUpdates now c rest (snd (action ph c w)) k"
  by (simp add: phaseUpdates_def)

lemma phaseUpdates_0:
  "phaseUpdates now c (ph # rest) w 0 = [startUpdate ph (now w), completedUpdate ph (now w)]"
  by (simp add: phaseUpdates_def)

lemma concat_phaseUpdates_Suc:
  "concat (map (phaseUpdates now c (ph # rest) w) [0..<Suc n]) =
     [startUpdate ph (now w), completedUpdate ph (now w)]
       @ concat (map (phaseUpdates now c rest (snd (action ph c w))) [0..<n])"
  by (simp only: map_upt_Suc phaseUpdates_Suc phaseUpdates_0 concat.simps list.map)

lemma runPhases_prefix:
  "n \<le> length ps \<Longrightarrow>
   (\<forall>j<n. fst (action (ps ! j) c (world_before c ps w j)) = None) \<Longrightarrow>
   runPhases now c ps out w =
     runPhases now c (drop n ps) (out @ concat (map (phaseUpdates now c ps w) [0..<n]))
       (world_before c ps w n)"
proof (induction ps arbitrary: n out w)
  case Nil
  then show ?case by simp
next
  case (Cons ph rest)
  show ?case
  proof (cases n)
    case 0
    then show ?thesis by simp
  next
    case (Suc m)
    obtain w1 where act: "action ph c w = (None, w1)"
      using Cons.prems(2) Suc by (cases "action ph c w") force
    have len: "m \<le> length rest"
      using Cons.prems(1) Suc by simp
    have ok: "\<forall>j<m. fst (action (rest ! j) c (world_before c rest w1 j)) = None"
    proof (intro allI impI)
      fix j assume "j < m"
      then have "Suc j < n" using Suc by simp
      with Cons.prems(2) have "fst (action ((ph # rest) ! Suc j) c (world_before c (ph # rest) w (Suc j))) = None"
        by blast
      then show "fst (action (rest ! j) c (world_before c rest w1 j)) = None"
        using act by simp
    qed
    have "runPhases now c (ph # rest) out w =
            runPhases now c rest (out @ [startUpdate ph (now w), completedUpdate ph (now w)]) w1"
      using act by (simp add: Let_def)
    also have "\<dots> = runPhases now c (drop m rest)
        ((out @ [startUpdate ph (now w), completedUpdate ph (now w)])
           @ concat (map (phaseUpdates now c rest w1) [0..<m]))
        (world_before c rest w1 m)"
      by (rule Cons.IH [OF len ok])
    finally show ?thesis
      using Suc act by (simp only: concat_phaseUpdates_Suc drop_Suc_Cons world_before.simps snd_conv append_assoc)
  qed
qed

lemma runPhases_fails_at:
  assumes "i < length ps"
    and "\<forall>j<i. fst (action (ps ! j) c (world_before c ps w j)) = None"
    and "fst (action (ps ! i) c (world_before c ps w i)) = Some err"
  shows "runPhases now c ps out w =
     (Some (Errorf (''phase '' @ name (ps ! i) @ '' failed: '') err),
      out @ concat (map (phaseUpdates now c ps w) [0..<i])
          @ [startUpdate (ps ! i) (now (world_before c ps w i))],
      world_before c ps w (Suc i))"
proof -
  have wb: "world_before c ps w (Suc i) = snd (action (ps ! i) c (world_before c ps w i))"
    using assms(1)
  proof (induction ps arbitrary: i w)
    case Nil then show ?case by simp
  next
    case (Cons ph rest)
    then show ?case by (cases i) simp_all
  qed
  obtain w' where act: "action (ps ! i) c (world_before c ps w i) = (Some err, w')"
    using assms(3) by (cases "action (ps ! i) c (world_before c ps w i)") auto
  have "runPhases now c ps out w =
     runPhases now c (ps ! i # drop (Suc i) ps) (out @ concat (map (phaseUpdates now c ps w) [0..<i]))
       (world_before c ps w i)"
    using runPhases_prefix [of i ps c w now out] assms(1,2)
    by (simp add: Cons_nth_drop_Suc)
  then show ?thesis
    using act wb by (simp add: Let_def)
qed

lemma runPhases_all_succeed:
  assumes "\<forall>j<length ps. fst (action (ps ! j) c (world_before c ps w j)) = None"
  shows "runPhases now c ps out w =
     (None, out @ concat (map (phaseUpdates now c ps w) [0..<length ps]),
      world_before c ps w (length ps))"
  using runPhases_prefix [of "length ps" ps c w now out] assms by simp


lemma runPhases_out:
  "fst (snd (runPhases now c ps out w)) = out @ fst (snd (runPhases now c ps [] w))"
proof (induction ps arbitrary: out w)
  case Nil
  then show ?case by simp
next
  case (Cons ph rest)
  show ?case
  proof (cases "action ph c w")
    case (Pair r w1)
    show ?thesis
    proof (cases r)
      case None
      have "fst (snd (runPhases now c rest (out @ [startUpdate ph (now w), completedUpdate ph (now w)]) w1))
              = (out @ [startUpdate ph (now w), completedUpdate ph (now w)])
                  @ fst (snd (runPhases now c rest [] w1))"
        by (rule Cons.IH)
      moreover have "fst (snd (runPhases now c rest [startUpdate ph (now w), completedUpdate ph (now w)] w1))
              = [startUpdate ph (now w), completedUpdate ph (now w)]
                  @ fst (snd (runPhases now c rest [] w1))"
        by (rule Cons.IH)
      ultimately show ?thesis
        using Pair None by (simp add: Let_def)
    next
      case (Some e)
      then show ?thesis using Pair by (simp add: Let_def)
    qed
  qed
qed

lemma runPhases_pairs:
  "u \<in> set (fst (snd (runPhases now c ps out w))) \<Longrightarrow>
     u \<in> set out \<or> (\<exists>ph \<in> set ps. pu_Phase u = name ph \<and> pu_Progress u = progress ph)"
proof (induction ps arbitrary: out w)
  case Nil
  then show ?case by simp
next
  case (Cons ph rest)
  show ?case
  proof (cases "action ph c w")
    case (Pair r w1)
    show ?thesis
    proof (cases r)
      case None
      with Pair Cons.prems
      have "u \<in> set (fst (snd (runPhases now c rest
               (out @ [startUpdate ph (now w), completedUpdate ph (now w)]) w1)))"
        by (simp add: Let_def)
      from Cons.IH [OF this] show ?thesis
        by (auto simp add: startUpdate_def completedUpdate_def)
    next
      case (Some e)
      with Pair Cons.prems show ?thesis
        by (auto simp add: Let_def startUpdate_def)
    qed
  qed
qed

lemma runPhases_sorted:
  "sorted (map progress ps) \<Longrightarrow> sorted (map pu_Progress out) \<Longrightarrow>
   (\<forall>u \<in> set out. \<forall>ph \<in> set ps. pu_Progress u \<le> progress ph) \<Longrightarrow>
   sorted (map pu_Progress (fst (snd (runPhases now c ps out w))))"
proof (induction ps arbitrary: out w)
  case Nil
  then show ?case by simp
next
  case (Cons ph rest)
  let ?s = "startUpdate ph (now w)" and ?d = "completedUpdate ph (now w)"
  have p: "pu_Progress ?s = progress ph" "pu_Progress ?d = progress ph"
    by (simp_all add: startUpdate_def completedUpdate_def)
  have s1: "sorted (map pu_Progress (out @ [?s]))"
    using Cons.prems(2,3) p by (auto simp add: sorted_append)
  have s2: "sorted (map pu_Progress (out @ [?s, ?d]))"
    using Cons.prems(2,3) p by (auto simp add: sorted_append)
  have b2: "\<forall>u \<in> set (out @ [?s, ?d]). \<forall>ph' \<in> set rest. pu_Progress u \<le> progress ph'"
    using Cons.prems(1,3) p by auto
  have r: "sorted (map progress rest)"
    using Cons.prems(1) by simp
  show ?case
  proof (cases "action ph c w")
    case (Pair r' w1)
    show ?thesis
    proof (cases r')
      case None
      then show ?thesis
        using Pair Cons.IH [OF r s2 b2, of w1] by (simp add: Let_def)
    next
      case (Some e)
      then show ?thesis using Pair s1 by (simp add: Let_def)
    qed
  qed
qed

lemma filter_phaseUpdates:
  assumes "distinct (map name ps)" and "k < length ps" and "n \<le> length ps"
  shows "filter (\<lambda>u. pu_Phase u = name (ps ! k)) (concat (map (phaseUpdates now c ps w) [0..<n]))
           = (if k < n then phaseUpdates now c ps w k else [])"
  using assms(3)
proof (induction n)
  case 0
  then show ?case by simp
next
  case (Suc n)
  then have n: "n < length ps" by simp
  have "name (ps ! n) = name (ps ! k) \<longleftrightarrow> n = k"
    using assms(1,2) n nth_eq_iff_index_eq [of "map name ps" n k] by simp
  then show ?case
    using Suc by (auto simp add: phaseUpdates_def startUpdate_def completedUpdate_def)
qed

lemma runPhases_two_updates:
  assumes "distinct (map name ps)" and "k < length ps"
    and "\<forall>j\<le>k. fst (action (ps ! j) c (world_before c ps w j)) = None"
  shows "filter (\<lambda>u. pu_Phase u = name (ps ! k)) (fst (snd (runPhases now c ps [] w)))
           = phaseUpdates now c ps w k"
proof -
  let ?pre = "concat (map (phaseUpdates now c ps w) [0..<Suc k])"
  let ?rest = "fst (snd (runPhases now c (drop (Suc k) ps) [] (world_before c ps w (Suc k))))"
  have "runPhases now c ps [] w =
          runPhases now c (drop (Suc k) ps) ([] @ ?pre) (world_before c ps w (Suc k))"
    using assms(2,3) by (intro runPhases_prefix) auto
  then have out: "fst (snd (runPhases now c ps [] w)) = ?pre @ ?rest"
    using runPhases_out [of now c "drop (Suc k) ps" ?pre] by simp
  have "name (ps ! k) \<notin> name ` set (drop (Suc k) ps)"
  proof
    assume "name (ps ! k) \<in> name ` set (drop (Suc k) ps)"
    then obtain j where j: "j < length (drop (Suc k) ps)" "name (drop (Suc k) ps ! j) = name (ps ! k)"
      by (auto simp add: in_set_conv_nth)
    then have "Suc k + j < length ps" "name (ps ! (Suc k + j)) = name (ps ! k)"
      by auto
    with assms(1,2) show False
      using nth_eq_iff_index_eq [of "map name ps" "Suc k + j" k] by simp
  qed
  then have "filter (\<lambda>u. pu_Phase u = name (ps ! k)) ?rest = []"
  proof -
    assume notin: "name (ps ! k) \<notin> name ` set (drop (Suc k) ps)"
    have "pu_Phase u \<noteq> name (ps ! k)" if "u \<in> set ?rest" for u
    proof -
      from runPhases_pairs [OF that]
      obtain ph where "ph \<in> set (drop (Suc k) ps)" "pu_Phase u = name ph"
        by auto
      with notin show ?thesis by (metis image_eqI)
    qed
    then show ?thesis
      by (simp add: filter_empty_conv)
  qed
  moreover have "filter (\<lambda>u. pu_Phase u = name (ps ! k)) ?pre = phaseUpdates now c ps w k"
    using filter_phaseUpdates [OF assms(1,2), of "Suc k" now c w] assms(2) by simp
  ultimately show ?thesis
    using out by simp
qed

lemma phases_facts:
  "length (phases inst) = 6"
  "map name (phases inst) =
     [''validation'', ''preparation'', ''supabase'', ''application'', ''verification'', ''complete'']"
  "map progress (phases inst) = [1 / 10, 2 / 10, 6 / 10, 8 / 10, 9 / 10, 1]"
  by (simp_all add: phases_def)

lemma distinct_phase_names: "distinct (map name (phases inst))"
  by (simp add: phases_facts)

lemma sorted_phase_progress: "sorted (map progress (phases inst))"
  by (simp add: phases_facts)

lemma runInstall_output_cases:
  "fst (snd (runInstall inst w)) = [] \<or>
   (\<exists>c. fst (snd (runInstall inst w)) = fst (snd (runPhases (clock_Now inst) c (phases inst) [] w)))"
  by (auto simp add: runInstall_def Let_def split: sum.splits)

lemma world_before_take:
  "n \<le> length ps \<Longrightarrow> k \<le> n \<Longrightarrow>
     world_before c (take n ps @ others) w k = world_before c ps w k"
proof (induction ps arbitrary: n k w)
  case Nil
  then show ?case by simp
next
  case (Cons ph rest)
  show ?case
  proof (cases k)
    case 0
    then show ?thesis by simp
  next
    case (Suc k')
    with Cons.prems obtain n' where n: "n = Suc n'" "n' \<le> length rest" "k' \<le> n'"
      by (cases n) auto
    then show ?thesis
      using Suc Cons.IH [of n' k'] by simp
  qed
qed

lemma runPhases_tail_irrelevant:
  assumes "i < length ps"
    and "\<forall>j<i. fst (action (ps ! j) c (world_before c ps w j)) = None"
    and "fst (action (ps ! i) c (world_before c ps w i)) = Some err"
  shows "runPhases now c (take (Suc i) ps @ others) out w = runPhases now c ps out w"
proof -
  let ?qs = "take (Suc i) ps @ others"
  have len: "Suc i \<le> length ps" using assms(1) by simp
  have nth: "?qs ! j = ps ! j" if "j \<le> i" for j
    using that assms(1) by (simp add: nth_append)
  have wb: "world_before c ?qs w j = world_before c ps w j" if "j \<le> Suc i" for j
    using world_before_take [OF len that] .
  have upd: "phaseUpdates now c ?qs w j = phaseUpdates now c ps w j" if "j < i" for j
    using that nth [of j] wb [of j] by (simp add: phaseUpdates_def)
  have "runPhases now c ?qs out w =
     (Some (Errorf (''phase '' @ name (?qs ! i) @ '' failed: '') err),
      out @ concat (map (phaseUpdates now c ?qs w) [0..<i])
          @ [startUpdate (?qs ! i) (now (world_before c ?qs w i))],
      world_before c ?qs w (Suc i))"
  proof (rule runPhases_fails_at)
    show "i < length ?qs" using assms(1) by simp
    show "\<forall>j<i. fst (action (?qs ! j) c (world_before c ?qs w j)) = None"
      using assms(2) nth wb by simp
    show "fst (action (?qs ! i) c (world_before c ?qs w i)) = Some err"
      using assms(3) nth [of i] wb [of i] by simp
  qed
  moreover have "map (phaseUpdates now c ?qs w) [0..<i] = map (phaseUpdates now c ps w) [0..<i]"
    using upd by simp
  ultimately show ?thesis
    using runPhases_fails_at [OF assms, of now out] nth [of i] wb [of i] wb [of "Suc i"]
    by simp
qed

lemma runInstall_runPhases:
  "os_Getenv inst ''SUBOSITY_CONFIG'' \<noteq> [] \<Longrightarrow>
   json_Unmarshal inst (os_Getenv inst ''SUBOSITY_CONFIG'') = Inr c \<Longrightarrow>
   runInstall inst w = runPhases (clock_Now inst) c (phases inst) [] w"
  by (simp add: runInstall_def Let_def)

lemmas installer_defs = installer_supabase_fails_def installer_all_ok_def succeeds_def
  fails_with_def phases_def startUpdate_def completedUpdate_def runInstall_def

lemma run_supabase_fails:
  "runInstall installer_supabase_fails 0 =
     (Some (Errorf ''phase supabase failed: '' (ErrorString ''failed to install Supabase CLI'')),
      [\<lparr>pu_Phase = ''validation'', pu_Step = [], pu_Progress = 1 / 10,
        pu_Message = ''Starting validation phase...'', pu_Timestamp = 0\<rparr>,
       \<lparr>pu_Phase = ''validation'', pu_Step = [], pu_Progress = 1 / 10,
        pu_Message = ''Completed validation phase'', pu_Timestamp = 0\<rparr>,
       \<lparr>pu_Phase = ''preparation'', pu_Step = [], pu_Progress = 2 / 10,
        pu_Message = ''Starting preparation phase...'', pu_Timestamp = 1\<rparr>,
       \<lparr>pu_Phase = ''preparation'', pu_Step = [], pu_Progress = 2 / 10,
        pu_Message = ''Completed preparation phase'', pu_Timestamp = 1\<rparr>,
       \<lparr>pu_Phase = ''supabase'', pu_Step = [], pu_Progress = 6 / 10,
        pu_Message = ''Starting supabase phase...'', pu_Timestamp = 2\<rparr>],
      3)"
  by (simp add: installer_defs Let_def)

lemma run_all_ok_progress:
  "map pu_Progress (fst (snd (runInstall installer_all_ok 0))) =
     [1 / 10, 1 / 10, 2 / 10, 2 / 10, 6 / 10, 6 / 10, 8 / 10, 8 / 10, 9 / 10, 9 / 10, 1, 1]"
  "map pu_Phase (fst (snd (runInstall installer_all_ok 0))) =
     [''validation'', ''validation'', ''preparation'', ''preparation'', ''supabase'', ''supabase'',
      ''application'', ''application'', ''verification'', ''verification'', ''complete'', ''complete'']"
  "fst (runInstall installer_all_ok 0) = None"
  "snd (snd (runInstall installer_all_ok 0)) = 6"
  by (simp_all add: installer_defs Let_def)

lemma run_all_ok:
  "runInstall installer_all_ok 0 =
     (None,
      [\<lparr>pu_Phase = ''validation'', pu_Step = [], pu_Progress = 1 / 10,
        pu_Message = ''Starting validation phase...'', pu_Timestamp = 0\<rparr>,
       \<lparr>pu_Phase = ''validation'', pu_Step = [], pu_Progress = 1 / 10,
        pu_Message = ''Completed validation phase'', pu_Timestamp = 0\<rparr>,
       \<lparr>pu_Phase = ''preparation'', pu_Step = [], pu_Progress = 2 / 10,
        pu_Message = ''Starting preparation phase...'', pu_Timestamp = 1\<rparr>,
       \<lparr>pu_Phase = ''preparation'', pu_Step = [], pu_Progress = 2 / 10,
        pu_Message = ''Completed preparation phase'', pu_Timestamp = 1\<rparr>,
       \<lparr>pu_Phase = ''supabase'', pu_Step = [], pu_Progress = 6 / 10,
        pu_Message = ''Starting supabase phase...'', pu_Timestamp = 2\<rparr>,
       \<lparr>pu_Phase = ''supabase'', pu_Step = [], pu_Progress = 6 / 10,
        pu_Message = ''Completed supabase phase'', pu_Timestamp = 2\<rparr>,
       \<lparr>pu_Phase = ''application'', pu_Step = [], pu_Progress = 8 / 10,
        pu_Message = ''Starting application phase...'', pu_Timestamp = 3\<rparr>,
       \<lparr>pu_Phase = ''application'', pu_Step = [], pu_Progress = 8 / 10,
        pu_Message = ''Completed application phase'', pu_Timestamp = 3\<rparr>,
       \<lparr>pu_Phase = ''verification'', pu_Step = [], pu_Progress = 9 / 10,
        pu_Message = ''Starting verification phase...'', pu_Timestamp = 4\<rparr>,
       \<lparr>pu_Phase = ''verification'', pu_Step = [], pu_Progress = 9 / 10,
        pu_Message = ''Completed verification phase'', pu_Timestamp = 4\<rparr>,
       \<lparr>pu_Phase = ''complete'', pu_Step = [], pu_Progress = 1,
        pu_Message = ''Starting complete phase...'', pu_Timestamp = 5\<rparr>,
       \<lparr>pu_Phase = ''complete'', pu_Step = [], pu_Progress = 1,
        pu_Message = ''Completed complete phase'', pu_Timestamp = 5\<rparr>],
      6)"
  by (simp add: installer_defs Let_def)

text \<open>
  Claim C2. For every list of phases and every index \<open>i\<close> such that the actions
  before \<open>i\<close> return nil and the action of phase \<open>i\<close> returns an error, the loop of
  \<open>runInstall\<close> stops there: the returned error wraps the cause under the text
  \<open>phase <name> failed: \<close> with the name of phase \<open>i\<close>; the world it leaves is
  the one the failing action left, so that neither a later phase nor a compensating
  action has run; the output ends with the starting update of phase \<open>i\<close>; and the
  whole result is the same whatever phases follow \<open>i\<close>. When every action returns
  nil the loop returns no error. \<open>runInstall\<close> is this loop on its six phases once
  the configuration is read from the environment.
\<close>

theorem runInstall_stops_at_first_failure:
  "(os_Getenv inst ''SUBOSITY_CONFIG'' \<noteq> []
      \<and> json_Unmarshal inst (os_Getenv inst ''SUBOSITY_CONFIG'') = Inr c \<longrightarrow>
      runInstall inst w = runPhases (clock_Now inst) c (phases inst) [] w)
   \<and> (i < length ps
      \<and> (\<forall>j<i. fst (action (ps ! j) c (world_before c ps w j)) = None)
      \<and> fst (action (ps ! i) c (world_before c ps w i)) = Some err \<longrightarrow>
      runPhases now c ps out w =
        (Some (Errorf (''phase '' @ name (ps ! i) @ '' failed: '') err),
         out @ concat (map (phaseUpdates now c ps w) [0..<i])
             @ [startUpdate (ps ! i) (now (world_before c ps w i))],
         world_before c ps w (Suc i))
      \<and> runPhases now c (take (Suc i) ps @ others) out w = runPhases now c ps out w)
   \<and> ((\<forall>j<length ps. fst (action (ps ! j) c (world_before c ps w j)) = None) \<longrightarrow>
        fst (runPhases now c ps out w) = None)"
  using runInstall_runPhases [of inst c w] runPhases_fails_at [of i ps c w err now out]
    runPhases_tail_irrelevant [of i ps c w err now others out]
    runPhases_all_succeed [of ps c w now out]
  by simp

theorem runInstall_stops_at_first_failure_witness:
  "os_Getenv installer_supabase_fails ''SUBOSITY_CONFIG'' \<noteq> []
   \<and> json_Unmarshal installer_supabase_fails (os_Getenv installer_supabase_fails ''SUBOSITY_CONFIG'')
        = Inr (config_of EnvironmentDevelopment ''app.local'' [])
   \<and> 2 < length (phases installer_supabase_fails)
   \<and> fst (action (phases installer_supabase_fails ! 0) (config_of EnvironmentDevelopment ''app.local'' [])
        (world_before (config_of EnvironmentDevelopment ''app.local'' [])
           (phases installer_supabase_fails) 0 0)) = None
   \<and> fst (action (phases installer_supabase_fails ! 1) (config_of EnvironmentDevelopment ''app.local'' [])
        (world_before (config_of EnvironmentDevelopment ''app.local'' [])
           (phases installer_supabase_fails) 0 1)) = None
   \<and> fst (action (phases installer_supabase_fails ! 2) (config_of EnvironmentDevelopment ''app.local'' [])
        (world_before (config_of EnvironmentDevelopment ''app.local'' [])
           (phases installer_supabase_fails) 0 2)) = Some (ErrorString ''failed to install Supabase CLI'')
   \<and> fst (runInstall installer_supabase_fails 0) =
        Some (Errorf ''phase supabase failed: '' (ErrorString ''failed to install Supabase CLI''))
   \<and> map pu_Phase (fst (snd (runInstall installer_supabase_fails 0))) =
        [''validation'', ''validation'', ''preparation'', ''preparation'', ''supabase'']
   \<and> snd (snd (runInstall installer_supabase_fails 0)) = 3
   \<and> fst (runInstall installer_all_ok 0) = None"
  using runInstall_stops_at_first_failure
    [of installer_supabase_fails "config_of EnvironmentDevelopment ''app.local'' []" 0
        2 "phases installer_supabase_fails" "ErrorString ''failed to install Supabase CLI''"
        "clock_Now installer_supabase_fails" "[]" "[]"]
    run_supabase_fails run_all_ok_progress(3)
  by (simp add: installer_supabase_fails_def installer_all_ok_def succeeds_def fails_with_def
      phases_def numeral_2_eq_2)

text \<open>
  Claim C4. In every run of \<open>runInstall\<close>, whatever the actions do, an update
  emitted before another carries a progress value less than or equal to the other's,
  and an update whose progress is 1 belongs to the phase \<open>complete\<close>.
\<close>

theorem runInstall_progress_non_decreasing:
  "(\<forall>i j. i < j \<and> j < length (fst (snd (runInstall inst w))) \<longrightarrow>
        pu_Progress (fst (snd (runInstall inst w)) ! i)
          \<le> pu_Progress (fst (snd (runInstall inst w)) ! j))
   \<and> (\<forall>u \<in> set (fst (snd (runInstall inst w))).
        pu_Progress u = 1 \<longrightarrow> pu_Phase u = ''complete'')"
proof -
  let ?out = "fst (snd (runInstall inst w))"
  from runInstall_output_cases [of inst w]
  consider (none) "?out = []"
    | (run) c where "?out = fst (snd (runPhases (clock_Now inst) c (phases inst) [] w))"
    by blast
  then show ?thesis
  proof cases
    case none
    then show ?thesis by simp
  next
    case run
    have "sorted (map pu_Progress ?out)"
      unfolding run by (rule runPhases_sorted [OF sorted_phase_progress]) simp_all
    then have mono: "\<forall>i j. i < j \<and> j < length ?out \<longrightarrow> pu_Progress (?out ! i) \<le> pu_Progress (?out ! j)"
      by (auto simp add: sorted_iff_nth_mono)
    have last: "pu_Phase u = ''complete''" if "u \<in> set ?out" "pu_Progress u = 1" for u
    proof -
      from that(1) runPhases_pairs [of u "clock_Now inst" c "phases inst" "[]" w]
      obtain ph where "ph \<in> set (phases inst)" "pu_Phase u = name ph" "pu_Progress u = progress ph"
        unfolding run by auto
      with that(2) show ?thesis
        by (auto simp add: phases_def)
    qed
    from mono last show ?thesis by blast
  qed
qed

theorem runInstall_progress_non_decreasing_witness:
  "map pu_Progress (fst (snd (runInstall installer_all_ok 0))) =
     [1 / 10, 1 / 10, 2 / 10, 2 / 10, 6 / 10, 6 / 10, 8 / 10, 8 / 10, 9 / 10, 9 / 10, 1, 1]
   \<and> (1 :: nat) < 2 \<and> 2 < length (fst (snd (runInstall installer_all_ok 0)))
   \<and> pu_Progress (fst (snd (runInstall installer_all_ok 0)) ! 1)
        \<le> pu_Progress (fst (snd (runInstall installer_all_ok 0)) ! 2)
   \<and> fst (snd (runInstall installer_all_ok 0)) ! 11 \<in> set (fst (snd (runInstall installer_all_ok 0)))
   \<and> pu_Progress (fst (snd (runInstall installer_all_ok 0)) ! 11) = 1
   \<and> pu_Phase (fst (snd (runInstall installer_all_ok 0)) ! 11) = ''complete''"
proof -
  note runInstall_progress_non_decreasing [of installer_all_ok 0]
  then show ?thesis
    unfolding run_all_ok by simp
qed

text \<open>
  Claim C5, as stated, fails: the two updates of a phase carry the same progress value,
  since the second is the first with only its message replaced. In the run where every
  action succeeds, the two updates of the phase \<open>validation\<close> both carry 0.1.
\<close>

theorem runInstall_same_progress_counterexample:
  "map pu_Phase (take 2 (fst (snd (runInstall installer_all_ok 0)))) = [''validation'', ''validation'']
   \<and> map pu_Message (take 2 (fst (snd (runInstall installer_all_ok 0)))) =
        [''Starting validation phase...'', ''Completed validation phase'']
   \<and> map pu_Progress (take 2 (fst (snd (runInstall installer_all_ok 0)))) = [1 / 10, 1 / 10]
   \<and> \<not> pu_Progress (fst (snd (runInstall installer_all_ok 0)) ! 0)
         < pu_Progress (fst (snd (runInstall installer_all_ok 0)) ! 1)"
  unfolding run_all_ok by simp

text \<open>
  Claim C5, amended. For every phase of the pipeline whose action runs and succeeds
  (all actions up to and including its own return nil), the executor emits exactly two
  updates for that phase: one before the action runs, with the message
  \<open>Starting <name> phase...\<close>, and one after the action succeeds, with the message
  \<open>Completed <name> phase\<close>; both carry the same progress value, the one the phase
  table gives to the phase, and the same timestamp.
\<close>

theorem runInstall_two_updates_per_completed_phase:
  "os_Getenv inst ''SUBOSITY_CONFIG'' \<noteq> []
   \<and> json_Unmarshal inst (os_Getenv inst ''SUBOSITY_CONFIG'') = Inr c
   \<and> k < length (phases inst)
   \<and> (\<forall>j\<le>k. fst (action (phases inst ! j) c (world_before c (phases inst) w j)) = None)
   \<longrightarrow> filter (\<lambda>u. pu_Phase u = name (phases inst ! k)) (fst (snd (runInstall inst w))) =
         [\<lparr>pu_Phase = name (phases inst ! k), pu_Step = [],
           pu_Progress = progress (phases inst ! k),
           pu_Message = ''Starting '' @ name (phases inst ! k) @ '' phase...'',
           pu_Timestamp = clock_Now inst (world_before c (phases inst) w k)\<rparr>,
          \<lparr>pu_Phase = name (phases inst ! k), pu_Step = [],
           pu_Progress = progress (phases inst ! k),
           pu_Message = ''Completed '' @ name (phases inst ! k) @ '' phase'',
           pu_Timestamp = clock_Now inst (world_before c (phases inst) w k)\<rparr>]"
proof
  assume a: "os_Getenv inst ''SUBOSITY_CONFIG'' \<noteq> []
   \<and> json_Unmarshal inst (os_Getenv inst ''SUBOSITY_CONFIG'') = Inr c
   \<and> k < length (phases inst)
   \<and> (\<forall>j\<le>k. fst (action (phases inst ! j) c (world_before c (phases inst) w j)) = None)"
  then have run: "runInstall inst w = runPhases (clock_Now inst) c (phases inst) [] w"
    by (simp add: runInstall_runPhases)
  have "filter (\<lambda>u. pu_Phase u = name (phases inst ! k))
          (fst (snd (runPhases (clock_Now inst) c (phases inst) [] w)))
        = phaseUpdates (clock_Now inst) c (phases inst) w k"
    using a by (intro runPhases_two_updates distinct_phase_names) simp_all
  then show "filter (\<lambda>u. pu_Phase u = name (phases inst ! k)) (fst (snd (runInstall inst w))) =
         [\<lparr>pu_Phase = name (phases inst ! k), pu_Step = [],
           pu_Progress = progress (phases inst ! k),
           pu_Message = ''Starting '' @ name (phases inst ! k) @ '' phase...'',
           pu_Timestamp = clock_Now inst (world_before c (phases inst) w k)\<rparr>,
          \<lparr>pu_Phase = name (phases inst ! k), pu_Step = [],
           pu_Progress = progress (phases inst ! k),
           pu_Message = ''Completed '' @ name (phases inst ! k) @ '' phase'',
           pu_Timestamp = clock_Now inst (world_before c (phases inst) w k)\<rparr>]"
    unfolding run by (simp add: phaseUpdates_def startUpdate_def completedUpdate_def)
qed

theorem runInstall_two_updates_per_completed_phase_witness:
  "os_Getenv installer_supabase_fails ''SUBOSITY_CONFIG'' \<noteq> []
   \<and> json_Unmarshal installer_supabase_fails (os_Getenv installer_supabase_fails ''SUBOSITY_CONFIG'')
        = Inr (config_of EnvironmentDevelopment ''app.local'' [])
   \<and> 1 < length (phases installer_supabase_fails)
   \<and> fst (action (phases installer_supabase_fails ! 0) (config_of EnvironmentDevelopment ''app.local'' [])
        (world_before (config_of EnvironmentDevelopment ''app.local'' [])
           (phases installer_supabase_fails) 0 0)) = None
   \<and> fst (action (phases installer_supabase_fails ! 1) (config_of EnvironmentDevelopment ''app.local'' [])
        (world_before (config_of EnvironmentDevelopment ''app.local'' [])
           (phases installer_supabase_fails) 0 1)) = None
   \<and> filter (\<lambda>u. pu_Phase u = ''preparation'') (fst (snd (runInstall installer_supabase_fails 0))) =
        [\<lparr>pu_Phase = ''preparation'', pu_Step = [], pu_Progress = 2 / 10,
          pu_Message = ''Starting preparation phase...'', pu_Timestamp = 1\<rparr>,
         \<lparr>pu_Phase = ''preparation'', pu_Step = [], pu_Progress = 2 / 10,
          pu_Message = ''Completed preparation phase'', pu_Timestamp = 1\<rparr>]"
proof -
  note runInstall_two_updates_per_completed_phase
    [of installer_supabase_fails "config_of EnvironmentDevelopment ''app.local'' []" 1 0]
  then show ?thesis
    unfolding run_supabase_fails
    by (simp add: installer_supabase_fails_def installer_all_ok_def succeeds_def fails_with_def
      phases_def)
qed

end
